theory Spec2Isabelle
  imports
    Complex_Main
    "HOL-Library.AList"
    "HOL-Library.Char_ord"
    "HOL-Library.List_Lexorder"
    "HOL-Library.Product_Lexorder"
begin

section \<open>Python exceptions and the supervisor decorator (lib/supervisor.py)\<close>

text \<open>
  The exceptions that the modelled functions raise, one constructor per raise site or
  library failure.  \<open>SystemExit\<close> and \<open>KeyboardInterrupt\<close> derive from
  \<open>BaseException\<close> only; every other exception of the program is a subclass of
  \<open>Exception\<close>.  \<open>NotModelled\<close> is no exception of the program: it marks the tables on
  which the model stops (see \<open>activities\<close> below).
\<close>

datatype exc =
    NoDataToCompute                 \<comment> \<open>\<open>ValueError("There is no data to compute")\<close>\<close>
  | MissingColumnName "string set"  \<comment> \<open>\<open>ValueError(f"Missing column name {missing_columns}")\<close>\<close>
  | MissingRequired "string set"    \<comment> \<open>\<open>ValueError(f"Missing required column(s): {missing_cols}")\<close>\<close>
  | TimeDataError                   \<comment> \<open>\<open>ValueError\<close> of \<open>to_datetime(..., errors='raise')\<close>\<close>
  | FloatError                      \<comment> \<open>\<open>ValueError\<close> of the builtin \<open>float\<close>\<close>
  | CellNotText                     \<comment> \<open>\<open>x.replace(',', '.')\<close> on a cell that is no \<open>str\<close>
                                        (\<open>AttributeError\<close> for a float or an int)\<close>
  | InvalidComparison               \<comment> \<open>\<open>TypeError\<close>: a datetime64 column ordered against a
                                        text that is no date\<close>
  | KeyError string
  | IndexError
  | CannotInsert string             \<comment> \<open>\<open>ValueError\<close>: \<open>insert\<close> of a column that already exists\<close>
  | ReadError                       \<comment> \<open>\<open>read_csv\<close> failed (file missing, not parseable)\<close>
  | UnsupportedFileType string      \<comment> \<open>\<open>ValueError(f"Unsupported file type: {filename}")\<close>\<close>
  | JSONDecodeError
  | SystemExit
  | KeyboardInterrupt
  | NotModelled

fun is_Exception :: "exc \<Rightarrow> bool" where
  "is_Exception SystemExit = False"
| "is_Exception KeyboardInterrupt = False"
| "is_Exception _ = True"

text \<open>
  A Python callable that works on a state \<open>'s\<close>: it returns a value or raises, and in
  both cases leaves a state behind (what it mutated before raising stays mutated).

  \<^verbatim>\<open>
  def wrapper(*args, **kwargs):
      try:
          return func(*args, **kwargs)
      except Exception:
          QMessageBox().critical(None, "Error", f"{format_exc()}")
  \<close>
  The wrapper's result is the outcome, the state, and the critical message boxes shown.
\<close>

type_synonym ('s, 'r) pyfun = "'s \<Rightarrow> (exc + 'r) \<times> 's"

definition supervisor :: "('s, 'r) pyfun \<Rightarrow> 's \<Rightarrow> (exc + 'r option) \<times> 's \<times> exc list" where
  "supervisor func s =
     (case func s of
        (Inr r, s') \<Rightarrow> (Inr (Some r), s', [])
      | (Inl e, s') \<Rightarrow>
          if is_Exception e then (Inr None, s', [e]) else (Inl e, s', []))"

text \<open>Sequencing of two callables: the second runs only if the first did not raise.\<close>

definition seq :: "('s, 'a) pyfun \<Rightarrow> ('s, 'b) pyfun \<Rightarrow> ('s, 'b) pyfun" where
  "seq f g s = (case f s of (Inl e, s') \<Rightarrow> (Inl e, s') | (Inr _, s') \<Rightarrow> g s')"


section \<open>The schedule widget (frame/widget_query.py, class TwoColumnWidget)\<close>

text \<open>
  The \<open>QTableWidget(0, 2)\<close>: a list of rows, each with two cells; a cell holds an item
  with its text, or no item (\<open>table.item(row, col)\<close> is then \<open>None\<close>).
\<close>

type_synonym qtable = "(string option \<times> string option) list"

definition rowCount :: "qtable \<Rightarrow> nat" where
  "rowCount t = length t"

definition item :: "qtable \<Rightarrow> nat \<Rightarrow> nat \<Rightarrow> string option" where
  "item t row col =
     (if row < length t then
        (if col = 0 then fst (t ! row) else if col = 1 then snd (t ! row) else None)
      else None)"

text \<open>
  \<^verbatim>\<open>
  for row in range(self.table.rowCount()):
      col1 = self.table.item(row, 0).text() if self.table.item(row, 0) else ""
      col2 = self.table.item(row, 1).text() if self.table.item(row, 1) else ""
      list_schedule.append((col1, col2))
  return list_schedule
  \<close>
\<close>

definition cell_text :: "string option \<Rightarrow> string" where
  "cell_text c = (case c of Some t \<Rightarrow> t | None \<Rightarrow> [])"

definition get_data :: "qtable \<Rightarrow> (string \<times> string) list" where
  "get_data t =
     map (\<lambda>row. (cell_text (item t row 0), cell_text (item t row 1))) [0..<rowCount t]"

text \<open>
  The combo box of class names (items and current index; \<open>-1\<close> when there is none), the
  dictionary \<open>class_info\<close> (insertion ordered, keys unique: an association list updated
  with \<open>AList.update\<close>, which replaces in place or appends) and the table.  An interval
  is a pair of texts, in the dictionary and in the JSON document alike.
\<close>

type_synonym schedules = "(string \<times> (string \<times> string) list) list"

record two_column_widget =
  class_info :: schedules
  class_selection :: "string list"
  currentIndex :: int
  table :: qtable

definition currentText :: "two_column_widget \<Rightarrow> string" where
  "currentText w =
     (if 0 \<le> currentIndex w \<and> currentIndex w < int (length (class_selection w))
      then class_selection w ! nat (currentIndex w) else [])"

text \<open>
  The file at \<open>SAVE_FILE\<close>: absent, a JSON object of class names to arrays of
  \<open>[start, end]\<close> texts (what \<open>json.load\<close> returns for it), or a text that \<open>json.load\<close>
  rejects.
\<close>

datatype save_file = Absent | Doc schedules | Malformed

text \<open>
  \<open>TwoColumnWidget.load_data\<close>: fill the table from the selected class, or clear it.
\<close>

definition widget_load_data :: "two_column_widget \<Rightarrow> two_column_widget" where
  "widget_load_data w =
     (case map_of (class_info w) (currentText w) of
        Some schedule_list \<Rightarrow> w\<lparr>table := map (\<lambda>(col1, col2). (Some col1, Some col2)) schedule_list\<rparr>
      | None \<Rightarrow> w\<lparr>table := []\<rparr>)"

text \<open>
  The part of \<open>__init__\<close> that reads the file, fills the combo box and loads the table:
  \<^verbatim>\<open>
  self.class_info = {}
  if path.exists(SAVE_FILE):
      with open(SAVE_FILE, 'r') as f:
          self.class_info = load(f)
          list_classes = self.class_info.keys()
  else:
      list_classes = []
  self.class_selection.addItems(list_classes)
  ...
  self.load_data()
  \<close>
\<close>

definition init :: "save_file \<Rightarrow> exc + two_column_widget" where
  "init f =
     (case f of
        Malformed \<Rightarrow> Inl JSONDecodeError
      | Doc d \<Rightarrow>
          Inr (widget_load_data
                 \<lparr>class_info = d, class_selection = map fst d,
                  currentIndex = (if d = [] then - 1 else 0), table = []\<rparr>)
      | Absent \<Rightarrow>
          Inr (widget_load_data
                 \<lparr>class_info = [], class_selection = [], currentIndex = - 1, table = []\<rparr>))"

text \<open>
  \<^verbatim>\<open>
  self.class_info[self.class_selection.currentText()] = self.get_data()
  if self.class_info != {'': []}:
      with open(SAVE_FILE, "w", encoding="utf-8") as f:
          dump(self.class_info, f, indent=4)
  else:
      if path.exists(SAVE_FILE):
          remove(SAVE_FILE)
  \<close>
\<close>

definition class_save :: "two_column_widget \<times> save_file \<Rightarrow> two_column_widget \<times> save_file" where
  "class_save = (\<lambda>(w, f).
     let w' = w\<lparr>class_info := AList.update (currentText w) (get_data (table w)) (class_info w)\<rparr>
     in if class_info w' \<noteq> [([], [])] then (w', Doc (class_info w'))
        else (w', if f \<noteq> Absent then Absent else f))"


section \<open>The library: pandas and the builtins\<close>

text \<open>
  What the program computes with dates and numbers it computes through pandas and
  Python builtins.  They are parameters of the model, so that every theorem holds for
  whatever these functions return:
  \<^item> \<open>strptime\<close>: one text cell under \<open>to_datetime(..., format='%d %B %Y %X')\<close> in the
    process locale; \<open>None\<close> when the text does not match (\<open>ValueError\<close>);
  \<^item> \<open>Timestamp\<close>: the scalar a datetime64 column builds from a text it is compared
    with; \<open>None\<close> when the text is no date the column can be compared with;
  \<^item> \<open>float\<close>: the builtin; \<open>None\<close> is its \<open>ValueError\<close>;
  \<^item> \<open>format_2f\<close>: \<open>f"{v:.2f}"\<close> of a number.

  \<open>NA\<close> is the missing value (\<open>NaN\<close> of a float, \<open>NaT\<close> of a timestamp).  A
  timestamp is a point on the time line, an integer; the numbers \<open>'f\<close> are linearly
  ordered with a zero.
\<close>

type_synonym time = int

datatype 'a na = NA | Val 'a

record 'f pylib =
  strptime :: "string \<Rightarrow> time na option"
  Timestamp :: "string \<Rightarrow> time na option"
  float :: "string \<Rightarrow> 'f na option"
  format_2f :: "'f \<Rightarrow> string"

text \<open>
  A \<open>Series\<close> has one dtype: \<open>object\<close> (texts, and \<open>NaN\<close> for an empty CSV cell), a
  numeric dtype (\<open>float64\<close>; an \<open>int64\<close> or \<open>bool\<close> column behaves the same in every
  operation modelled here) or \<open>datetime64\<close>.  A \<open>DataFrame\<close> is its columns in order,
  with unique names.
\<close>

datatype 'f series =
    Object "string na list"
  | Float64 "'f na list"
  | Datetime64 "time na list"

type_synonym 'f frame = "(string \<times> 'f series) list"

definition columns :: "'f frame \<Rightarrow> string list" where
  "columns df = map fst df"

text \<open>
  The column names and the status word of a completed attempt, as UTF-8 bytes (the
  accented letter is two bytes).  frame/widget_result.py writes the accented letter as
  these two bytes; in lib/csv_file_manager.py the same two bytes appear decoded in
  another character set and encoded again, an artefact of how that file was stored.  The
  model reads both spellings as the one name of the column.  The quotations of the
  source in this theory leave the accent out.
\<close>

definition e_acute :: string where
  "e_acute = [CHR 0xC3, CHR 0xA9]"

definition c_nom :: string where
  "c_nom = ''Nom de famille''"

definition c_prenom :: string where
  "c_prenom = ''Pr'' @ e_acute @ ''nom''"

definition c_statut :: string where
  "c_statut = ''Statut''"

definition c_commence :: string where
  "c_commence = ''Commenc'' @ e_acute"

definition c_termine :: string where
  "c_termine = ''Termin'' @ e_acute"

definition c_note :: string where
  "c_note = ''Note/20,00''"

definition terminee :: string where
  "terminee = ''Termin'' @ e_acute @ ''e''"

text \<open>
  Modelled from the spec: \<open>EXPECTED_COLUMNS\<close> of lib/parameters.py, which is not among
  the sources.  The spec lists the required column names: last name, first name, status,
  started-at, completed-at, score ("Note/20,00"); the names are those under which the code
  reads these columns.
\<close>

definition EXPECTED_COLUMNS :: "string list" where
  "EXPECTED_COLUMNS = [c_nom, c_prenom, c_statut, c_commence, c_termine, c_note]"

text \<open>
  The main window, as far as the two modules use it: \<open>parent.data\<close> (\<open>None\<close> until a
  CSV was read), \<open>parent.model\<close> (the frame the table view shows), the items of the
  student filter with their check state, and the schedule table.
\<close>

record 'f main_window =
  data :: "'f frame option"
  model :: "'f frame option"
  student_filter :: "(string \<times> bool) list"
  schedule :: qtable

section \<open>Loading a CSV (lib/csv_file_manager.py, load_data)\<close>

text \<open>
  \<open>df[col]\<close>, \<open>df[col] = s\<close> for a column that exists (it keeps its place),
  \<open>df.pop(col)\<close> and \<open>df.insert(loc, col, s)\<close>.
\<close>

definition getitem :: "'f frame \<Rightarrow> string \<Rightarrow> exc + 'f series" where
  "getitem df col = (case map_of df col of None \<Rightarrow> Inl (KeyError col) | Some s \<Rightarrow> Inr s)"

definition setitem :: "'f frame \<Rightarrow> string \<Rightarrow> 'f series \<Rightarrow> 'f frame" where
  "setitem df col s = AList.update col s df"

definition pop :: "'f frame \<Rightarrow> string \<Rightarrow> exc + ('f series \<times> 'f frame)" where
  "pop df col =
     (case map_of df col of
        None \<Rightarrow> Inl (KeyError col)
      | Some s \<Rightarrow> Inr (s, AList.delete col df))"

definition insert_col :: "'f frame \<Rightarrow> nat \<Rightarrow> string \<Rightarrow> 'f series \<Rightarrow> exc + 'f frame" where
  "insert_col df loc col s =
     (if col \<in> set (columns df) then Inl (CannotInsert col)
      else if length df < loc then Inl IndexError
      else Inr (take loc df @ [(col, s)] @ drop loc df))"

text \<open>A function applied to the cells of a column in order; the first failure is raised.\<close>

fun apply_cells :: "('a \<Rightarrow> exc + 'b) \<Rightarrow> 'a list \<Rightarrow> exc + 'b list" where
  "apply_cells g [] = Inr []"
| "apply_cells g (x # xs) =
     (case g x of
        Inl e \<Rightarrow> Inl e
      | Inr v \<Rightarrow> (case apply_cells g xs of Inl e \<Rightarrow> Inl e | Inr vs \<Rightarrow> Inr (v # vs)))"

text \<open>
  \<open>to_datetime(column, format='%d %B %Y %X', errors='raise')\<close>: a missing cell becomes
  \<open>NaT\<close>, a text is parsed, a number does not match the format.
\<close>

definition to_datetime :: "'f pylib \<Rightarrow> 'f series \<Rightarrow> exc + 'f series" where
  "to_datetime lib s =
     (case s of
        Datetime64 ts \<Rightarrow> Inr (Datetime64 ts)
      | Object xs \<Rightarrow>
          map_sum id Datetime64
            (apply_cells
               (\<lambda>x. case x of
                      NA \<Rightarrow> Inr NA
                    | Val t \<Rightarrow> (case strptime lib t of None \<Rightarrow> Inl TimeDataError | Some v \<Rightarrow> Inr v))
               xs)
      | Float64 xs \<Rightarrow>
          map_sum id Datetime64
            (apply_cells (\<lambda>x. case x of NA \<Rightarrow> Inr NA | Val v \<Rightarrow> Inl TimeDataError) xs))"

text \<open>
  \<open>column.apply(lambda x: float(x.replace(',', '.')))\<close>.  \<open>str.replace\<close> replaces every
  comma.  A cell that is no text (the \<open>NaN\<close> of an empty cell, a number of a numeric
  column) has no such \<open>replace\<close>.  On a column without rows \<open>apply\<close> calls nothing and
  returns the column with its dtype.
\<close>

definition comma_to_dot :: "string \<Rightarrow> string" where
  "comma_to_dot x = map (\<lambda>c. if c = CHR '','' then CHR ''.'' else c) x"

definition to_float :: "'f pylib \<Rightarrow> string na \<Rightarrow> exc + 'f na" where
  "to_float lib x =
     (case x of
        NA \<Rightarrow> Inl CellNotText
      | Val t \<Rightarrow> (case float lib (comma_to_dot t) of None \<Rightarrow> Inl FloatError | Some v \<Rightarrow> Inr v))"

definition apply_to_float :: "'f pylib \<Rightarrow> 'f series \<Rightarrow> exc + 'f series" where
  "apply_to_float lib s =
     (case s of
        Object xs \<Rightarrow>
          if xs = [] then Inr (Object []) else map_sum id Float64 (apply_cells (to_float lib) xs)
      | Float64 xs \<Rightarrow> if xs = [] then Inr (Float64 []) else Inl CellNotText
      | Datetime64 xs \<Rightarrow> if xs = [] then Inr (Datetime64 []) else Inl CellNotText)"

text \<open>
  \<^verbatim>\<open>
  for col, idx in zip(list_col, list_idx):
      removed_col = parent.data.pop(col)
      parent.data.insert(idx, col, removed_col)
  \<close>
  The frame is mutated in place: when a step raises, the frame stays as the steps before
  left it.
\<close>

fun reorder :: "(string \<times> nat) list \<Rightarrow> ('f frame, unit) pyfun" where
  "reorder [] df = (Inr (), df)"
| "reorder ((col, idx) # rest) df =
     (case pop df col of
        Inl e \<Rightarrow> (Inl e, df)
      | Inr (removed_col, df') \<Rightarrow>
          (case insert_col df' idx col removed_col of
             Inl e \<Rightarrow> (Inl e, df')
           | Inr df'' \<Rightarrow> reorder rest df''))"

text \<open>
  \<^verbatim>\<open>
  missing_cols = set(EXPECTED_COLUMNS).difference(parent.data.columns.to_list())
  if missing_cols:
      raise ValueError(f"Missing required column(s): {missing_cols}")
  \<close>
\<close>

definition check_missing :: "('f frame, unit) pyfun" where
  "check_missing df =
     (let missing_cols = set EXPECTED_COLUMNS - set (columns df)
      in if missing_cols \<noteq> {} then (Inl (MissingRequired missing_cols), df) else (Inr (), df))"

text \<open>\<open>parent.data[col] = g(parent.data[col])\<close>.\<close>

definition convert :: "('f series \<Rightarrow> exc + 'f series) \<Rightarrow> string \<Rightarrow> ('f frame, unit) pyfun" where
  "convert g col df =
     (case getitem df col of
        Inl e \<Rightarrow> (Inl e, df)
      | Inr s \<Rightarrow> (case g s of Inl e \<Rightarrow> (Inl e, df) | Inr s' \<Rightarrow> (Inr (), setitem df col s')))"

text \<open>
  The steps of \<open>load_data\<close> on the frame that \<open>parent.data\<close> is bound to, from the
  check of the columns to the reordering:
  \<^verbatim>\<open>
  parent.data['Commence'] = to_datetime(parent.data['Commence'], format='%d %B %Y %X', errors='raise')
  parent.data['Termine'] = to_datetime(parent.data['Termine'], format='%d %B %Y %X', errors='raise')
  parent.data['Note/20,00'] = parent.data['Note/20,00'].apply(lambda x: float(x.replace(',', '.')))
  list_col = ['Statut', 'Commence', 'Termine', 'Note/20,00']
  list_idx = [2, 3, 4, 5]
  \<close>
\<close>

definition preprocess :: "'f pylib \<Rightarrow> ('f frame, unit) pyfun" where
  "preprocess lib =
     seq check_missing
    (seq (convert (to_datetime lib) c_commence)
    (seq (convert (to_datetime lib) c_termine)
    (seq (convert (apply_to_float lib) c_note)
         (reorder [(c_statut, 2), (c_commence, 3), (c_termine, 4), (c_note, 5)]))))"

text \<open>
  The rows of a table, read through its six columns.  The model covers the tables whose
  name and status columns hold text, whose date columns are \<open>datetime64\<close> and whose
  score column is numeric: every table that \<open>load_data\<close> has loaded from a CSV with
  names and status words.  On another table (name or status column all empty or
  numeric, a table that a failed load left unconverted) the model stops with
  \<open>NotModelled\<close> instead of guessing what pandas does with it.
\<close>

record 'f activity =
  label :: nat
  nom :: "string na"
  prenom :: "string na"
  statut :: "string na"
  commence :: "time na"
  termine :: "time na"
  note20 :: "'f na"

definition activities :: "'f frame \<Rightarrow> 'f activity list option" where
  "activities df =
     (case (map_of df c_nom, map_of df c_prenom, map_of df c_statut,
            map_of df c_commence, map_of df c_termine, map_of df c_note) of
        (Some (Object a), Some (Object b), Some (Object c),
         Some (Datetime64 d), Some (Datetime64 e), Some (Float64 g)) \<Rightarrow>
          if length b = length a \<and> length c = length a \<and> length d = length a \<and>
             length e = length a \<and> length g = length a
          then Some (map (\<lambda>i. \<lparr>label = i, nom = a ! i, prenom = b ! i, statut = c ! i,
                                 commence = d ! i, termine = e ! i, note20 = g ! i\<rparr>)
                         [0..<length a])
          else None
      | _ \<Rightarrow> None)"

text \<open>
  \<open>data.groupby(['Nom de famille', 'Prenom'])\<close>: one group per pair of names, the keys
  sorted (strings compare by code point, which is the order of their UTF-8 bytes), the
  rows with a missing name dropped; a group keeps its rows in table order.
\<close>

definition full_name :: "string \<times> string \<Rightarrow> string" where
  "full_name name = fst name @ '' '' @ snd name"

definition group_keys :: "'f activity list \<Rightarrow> (string \<times> string) list" where
  "group_keys rows = sort (remdups [(l, p). (Val l, Val p) \<leftarrow> map (\<lambda>r. (nom r, prenom r)) rows])"

definition groupby :: "'f activity list \<Rightarrow> ((string \<times> string) \<times> 'f activity list) list" where
  "groupby rows =
     map (\<lambda>name. (name, [r \<leftarrow> rows. nom r = Val (fst name) \<and> prenom r = Val (snd name)]))
         (group_keys rows)"

text \<open>
  \<^verbatim>\<open>
  parent.data = read_csv(parent.widget_input_file.text())
  ... (the steps above) ...
  parent.model = PandasModel(parent.data, header=parent.data.columns.to_list())
  parent.widget_plot_info.widget_table_data.setModel(parent.model)
  parent.widget_query.widget_student_filter.clear()
  for name, _ in parent.data.groupby(['Nom de famille', 'Prenom']):
      parent.widget_query.widget_student_filter.add_checkable_item(
          text=f"{name[0]} {name[1]}", checked=True)
  \<close>
  \<open>read_csv\<close> is the outcome of reading the selected file: an exception, or the frame.
\<close>

definition load_data :: "'f pylib \<Rightarrow> exc + 'f frame \<Rightarrow> ('f main_window, unit) pyfun" where
  "load_data lib read_csv parent =
     (case read_csv of
        Inl e \<Rightarrow> (Inl e, parent)
      | Inr df0 \<Rightarrow>
          (case preprocess lib df0 of
             (Inl e, df) \<Rightarrow> (Inl e, parent\<lparr>data := Some df\<rparr>)
           | (Inr _, df) \<Rightarrow>
               (case activities df of
                  None \<Rightarrow>
                    (Inl NotModelled,
                     parent\<lparr>data := Some df, model := Some df, student_filter := []\<rparr>)
                | Some rows \<Rightarrow>
                    (Inr (),
                     parent\<lparr>data := Some df, model := Some df,
                            student_filter :=
                              map (\<lambda>(name, _). (full_name name, True)) (groupby rows)\<rparr>))))"


section \<open>Computing the results (frame/widget_result.py, WidgetResult.compute)\<close>

text \<open>\<open>CheckableComboBox.checked_items\<close>: the texts of the checked items, in order.\<close>

definition checked_items :: "(string \<times> bool) list \<Rightarrow> string list" where
  "checked_items items = map fst (filter snd items)"

text \<open>
  \<open>column >= start\<close> and \<open>column <= end\<close> on a \<open>datetime64\<close> column and a text: pandas
  first builds a timestamp from the text and raises \<open>TypeError\<close> if it cannot (also on a
  column without rows); against \<open>NaT\<close>, and on a \<open>NaT\<close> cell, the comparison is false.
\<close>

definition ge_start :: "'f pylib \<Rightarrow> string \<Rightarrow> exc + (time na \<Rightarrow> bool)" where
  "ge_start lib start =
     (case Timestamp lib start of
        None \<Rightarrow> Inl InvalidComparison
      | Some NA \<Rightarrow> Inr (\<lambda>c. False)
      | Some (Val s) \<Rightarrow> Inr (\<lambda>c. case c of NA \<Rightarrow> False | Val t \<Rightarrow> s \<le> t))"

definition le_end :: "'f pylib \<Rightarrow> string \<Rightarrow> exc + (time na \<Rightarrow> bool)" where
  "le_end lib end' =
     (case Timestamp lib end' of
        None \<Rightarrow> Inl InvalidComparison
      | Some NA \<Rightarrow> Inr (\<lambda>c. False)
      | Some (Val e) \<Rightarrow> Inr (\<lambda>c. case c of NA \<Rightarrow> False | Val t \<Rightarrow> t \<le> e))"

text \<open>
  \<^verbatim>\<open>
  row_first_checked[(row_first_checked['Commence'] >= start) &
                    (row_first_checked['Termine'] <= end)]
  \<close>
  The left comparison is evaluated first.
\<close>

definition select_rows ::
  "'f pylib \<Rightarrow> 'f activity list \<Rightarrow> string \<times> string \<Rightarrow> exc + 'f activity list" where
  "select_rows lib row_first_checked = (\<lambda>(start, end').
     case ge_start lib start of
       Inl e \<Rightarrow> Inl e
     | Inr ge \<Rightarrow>
         (case le_end lib end' of
            Inl e \<Rightarrow> Inl e
          | Inr le \<Rightarrow> Inr [r \<leftarrow> row_first_checked. ge (commence r) \<and> le (termine r)]))"

text \<open>
  \<^verbatim>\<open>
  df = DataFrame(columns=row_first_checked.columns)
  for start, end in schedule_data:
      df = concat([df, row_first_checked[...]])
  \<close>
\<close>

fun filter_schedule ::
  "'f pylib \<Rightarrow> 'f activity list \<Rightarrow> (string \<times> string) list \<Rightarrow> 'f activity list
     \<Rightarrow> exc + 'f activity list" where
  "filter_schedule lib row_first_checked [] df = Inr df"
| "filter_schedule lib row_first_checked (interval # schedule_data) df =
     (case select_rows lib row_first_checked interval of
        Inl e \<Rightarrow> Inl e
      | Inr sel \<Rightarrow> filter_schedule lib row_first_checked schedule_data (df @ sel))"

text \<open>
  \<open>df['Note/20,00'].max()\<close> skips \<open>NaN\<close> and is \<open>NaN\<close> when nothing is left;
  \<open>NaN > 0\<close> is false.
  \<^verbatim>\<open>
  QLabel(f"{df['Note/20,00'].max():.2f}" if df['Note/20,00'].max() > 0 else '')
  QLabel(f"{', '.join([f'{values:.2f}' for values in df['Note/20,00'].values])
            if df['Note/20,00'].values.size else ''}")
  \<close>
\<close>

definition nanmax :: "('f :: linorder) na list \<Rightarrow> 'f na" where
  "nanmax xs = (case [v. Val v \<leftarrow> xs] of [] \<Rightarrow> NA | v # vs \<Rightarrow> Val (fold max vs v))"

definition max_label :: "('f :: {linorder, zero}) pylib \<Rightarrow> 'f na list \<Rightarrow> string" where
  "max_label lib scores =
     (case nanmax scores of NA \<Rightarrow> [] | Val m \<Rightarrow> if 0 < m then format_2f lib m else [])"

definition format_cell :: "'f pylib \<Rightarrow> 'f na \<Rightarrow> string" where
  "format_cell lib x = (case x of NA \<Rightarrow> ''nan'' | Val v \<Rightarrow> format_2f lib v)"

fun join :: "string \<Rightarrow> string list \<Rightarrow> string" where
  "join sep [] = []"
| "join sep [x] = x"
| "join sep (x # y # ys) = x @ sep @ join sep (y # ys)"

definition notes_label :: "'f pylib \<Rightarrow> 'f na list \<Rightarrow> string" where
  "notes_label lib scores =
     (if scores \<noteq> [] then join '', '' (map (format_cell lib) scores) else [])"

text \<open>
  One row of the result grid: the labels put in the columns STUDENT, MAX. and NOTES.
  \<^verbatim>\<open>
  for name, group in student:
      full_name = f"{name[0]} {name[1]}"
      if full_name in self.parent().widget_query.widget_student_filter.checked_items():
          row_first_checked = group.query("Statut == 'Terminee'")
          schedule_data = self.parent().widget_query.widget_json_schedule.get_data()
          ...
          cpt += 1
  \<close>
\<close>

record result_row =
  col_student :: string
  col_max :: string
  col_notes :: string

fun compute_loop ::
  "('f :: {linorder, zero}) pylib \<Rightarrow> 'f main_window
     \<Rightarrow> ((string \<times> string) \<times> 'f activity list) list \<Rightarrow> exc + result_row list" where
  "compute_loop lib parent [] = Inr []"
| "compute_loop lib parent ((name, grp) # student) =
     (if full_name name \<in> set (checked_items (student_filter parent)) then
        (let row_first_checked = [r \<leftarrow> grp. statut r = Val terminee];
             schedule_data = get_data (schedule parent)
         in case filter_schedule lib row_first_checked schedule_data [] of
              Inl e \<Rightarrow> Inl e
            | Inr df \<Rightarrow>
                (case compute_loop lib parent student of
                   Inl e \<Rightarrow> Inl e
                 | Inr rest \<Rightarrow>
                     Inr (\<lparr>col_student = full_name name,
                           col_max = max_label lib (map note20 df),
                           col_notes = notes_label lib (map note20 df)\<rparr> # rest)))
      else compute_loop lib parent student)"

text \<open>
  \<^verbatim>\<open>
  if type(self.parent().data) != DataFrame:
      raise ValueError("There is no data to compute")
  if not set(EXPECTED_COLUMNS).issubset(self.parent().data.columns.to_list()):
      missing_columns = set(EXPECTED_COLUMNS).difference(self.parent().data.columns.to_list())
      raise ValueError(f"Missing column name {missing_columns}")
  student = self.parent().data.groupby(['Nom de famille', 'Prenom'])
  \<close>
  The result is the rows added to the grid by this call, in grid order.
\<close>

definition compute :: "('f :: {linorder, zero}) pylib \<Rightarrow> 'f main_window \<Rightarrow> exc + result_row list" where
  "compute lib parent =
     (case data parent of
        None \<Rightarrow> Inl NoDataToCompute
      | Some df \<Rightarrow>
          if \<not> set EXPECTED_COLUMNS \<subseteq> set (columns df)
          then Inl (MissingColumnName (set EXPECTED_COLUMNS - set (columns df)))
          else (case activities df of
                  None \<Rightarrow> Inl NotModelled
                | Some rows \<Rightarrow> compute_loop lib parent (groupby rows)))"


section \<open>The notions of the specification\<close>

text \<open>
  A text is a date when pandas can build a timestamp from it.  A row falls inside an
  interval when it started at or after the interval's start and was completed at or
  before its end.  The matched rows of a student are the union over the intervals, in
  stored order and with repetition, of the student's completed rows inside the interval.
\<close>

definition is_date :: "'f pylib \<Rightarrow> string \<Rightarrow> bool" where
  "is_date lib t = (Timestamp lib t \<noteq> None)"

definition all_dates :: "'f pylib \<Rightarrow> (string \<times> string) list \<Rightarrow> bool" where
  "all_dates lib schedule_data =
     list_all (\<lambda>interval. is_date lib (fst interval) \<and> is_date lib (snd interval)) schedule_data"

definition inside :: "'f pylib \<Rightarrow> string \<times> string \<Rightarrow> 'f activity \<Rightarrow> bool" where
  "inside lib interval r =
     (case (Timestamp lib (fst interval), Timestamp lib (snd interval), commence r, termine r) of
        (Some (Val s), Some (Val e), Val c, Val t) \<Rightarrow> s \<le> c \<and> t \<le> e
      | _ \<Rightarrow> False)"

definition matched_rows ::
  "'f pylib \<Rightarrow> (string \<times> string) list \<Rightarrow> 'f activity list \<Rightarrow> 'f activity list" where
  "matched_rows lib schedule_data grp =
     concat (map (\<lambda>interval. [r \<leftarrow> grp. statut r = Val terminee \<and> inside lib interval r])
                 schedule_data)"

definition selected :: "'f main_window \<Rightarrow> (string \<times> string) \<times> 'f activity list \<Rightarrow> bool" where
  "selected parent g = (full_name (fst g) \<in> set (checked_items (student_filter parent)))"

definition result_of ::
  "('f :: {linorder, zero}) pylib \<Rightarrow> 'f main_window \<Rightarrow> (string \<times> string) \<times> 'f activity list
     \<Rightarrow> result_row" where
  "result_of lib parent g =
     \<lparr>col_student = full_name (fst g),
      col_max = max_label lib (map note20 (matched_rows lib (get_data (schedule parent)) (snd g))),
      col_notes = notes_label lib (map note20 (matched_rows lib (get_data (schedule parent)) (snd g)))\<rparr>"


section \<open>The decorated functions\<close>

text \<open>
  Three functions carry the decorator: \<open>compute\<close>, \<open>load_data\<close> and \<open>open_csv\<close>.
  \<open>compute\<close> as a callable on the main window, which it only reads; the rows it puts in
  the grid stand for its effect.
\<close>

definition compute_callback ::
  "('f :: {linorder, zero}) pylib \<Rightarrow> ('f main_window, result_row list) pyfun" where
  "compute_callback lib parent = (compute lib parent, parent)"

text \<open>
  The application as \<open>open_csv\<close> sees it: the text of \<open>parent.widget_input_file\<close>, the
  main window, and the message boxes shown so far.  \<open>open_csv\<close> calls the decorated
  \<open>load_data\<close>, whose message box is shown before \<open>open_csv\<close> goes on.
\<close>

record 'f app =
  input_file :: string
  window :: "'f main_window"
  shown :: "exc list"

definition decorated_load_data :: "'f pylib \<Rightarrow> exc + 'f frame \<Rightarrow> ('f app, unit option) pyfun" where
  "decorated_load_data lib read_csv a =
     (case supervisor (load_data lib read_csv) (window a) of
        (r, p', msgs) \<Rightarrow> (r, a\<lparr>window := p', shown := shown a @ msgs\<rparr>))"

text \<open>
  \<open>filename.lower().endswith('.csv')\<close>: the last four characters are a dot and the
  letters c, s, v in either case (no other character has one of them as its lower case).
\<close>

definition is_csv :: "string \<Rightarrow> bool" where
  "is_csv filename =
     (case rev filename of
        v # s # c # d # _ \<Rightarrow>
          d = CHR ''.'' \<and> (c = CHR ''c'' \<or> c = CHR ''C'') \<and>
          (s = CHR ''s'' \<or> s = CHR ''S'') \<and> (v = CHR ''v'' \<or> v = CHR ''V'')
      | _ \<Rightarrow> False)"

text \<open>
  \<^verbatim>\<open>
  filename, _ = QFileDialog.getOpenFileName(...)
  if not filename:
      return
  if not filename.lower().endswith('.csv'):
      raise ValueError(f"Unsupported file type: {filename}")
  parent.widget_input_file.setText(f"File: {filename}")
  load_data(parent=parent)
  \<close>
  \<open>filename\<close> is what the dialog returned, \<open>read_csv\<close> the outcome of reading the file
  that \<open>load_data\<close> then reads.
\<close>

definition open_csv :: "'f pylib \<Rightarrow> string \<Rightarrow> exc + 'f frame \<Rightarrow> ('f app, unit) pyfun" where
  "open_csv lib filename read_csv a =
     (if filename = [] then (Inr (), a)
      else if \<not> is_csv filename then (Inl (UnsupportedFileType filename), a)
      else (case decorated_load_data lib read_csv (a\<lparr>input_file := ''File: '' @ filename\<rparr>) of
              (Inl e, a') \<Rightarrow> (Inl e, a')
            | (Inr _, a') \<Rightarrow> (Inr (), a')))"


section \<open>An example\<close>

text \<open>
  An instance of the library on the texts of the example, given by tables: the French
  dates of the CSV and the interval texts as seconds since 2024-01-01 00:00, the scores
  as rationals.  A text outside a table is rejected.
\<close>

definition demo_lib :: "rat pylib" where
  "demo_lib =
     \<lparr>strptime = map_of
        [(''1 janvier 2024 10:30:00'', Val 37800),
         (''1 janvier 2024 11:00:00'', Val 39600),
         (''3 janvier 2024 09:00:00'', Val 205200),
         (''3 janvier 2024 09:45:00'', Val 207900)],
      Timestamp = map_of
        [(''2024-01-01 00:00'', Val 0),
         (''2024-01-01 10:00'', Val 36000),
         (''2024-01-02 00:00'', Val 86400),
         (''2024-01-04 00:00'', Val 259200),
         (''NaT'', NA)],
      float = map_of
        [(''0.00'', Val 0), (''12.50'', Val (25 / 2)), (''15.50'', Val (31 / 2)),
         (''18.00'', Val 18)],
      format_2f = (\<lambda>v. case map_of
        [(0, ''0.00''), (25 / 2, ''12.50''), (31 / 2, ''15.50''), (18, ''18.00'')] v of
           Some t \<Rightarrow> t | None \<Rightarrow> [])\<rparr>"

text \<open>
  A CSV as \<open>read_csv\<close> returns it, the frame that \<open>load_data\<close> makes of it, its rows,
  and a main window that holds it with two of the three students checked.
\<close>

definition demo_csv :: "rat frame" where
  "demo_csv =
     [(c_nom, Object [Val ''Durand'', Val ''Durand'', Val ''Abel'', Val ''Durand'',
                      Val ''Martin'', Val ''Martin'', Val ''Durand'']),
      (c_prenom, Object [Val ''Zoe'', Val ''Zoe'', Val ''Max'', Val ''Zoe'',
                         Val ''Lea'', Val ''Lea'', Val ''Zoe'']),
      (''Question 1'', Object [Val ''ok'', NA, Val ''ok'', Val ''ok'', NA, NA, Val ''ok'']),
      (c_note, Object [Val ''12,50'', Val ''0,00'', Val ''15,50'', Val ''18,00'',
                       Val ''0,00'', Val ''0,00'', Val ''15,50'']),
      (c_commence, Object
         [Val ''1 janvier 2024 10:30:00'', Val ''1 janvier 2024 10:30:00'',
          Val ''1 janvier 2024 10:30:00'', Val ''3 janvier 2024 09:00:00'',
          Val ''1 janvier 2024 10:30:00'', Val ''3 janvier 2024 09:00:00'',
          Val ''1 janvier 2024 10:30:00'']),
      (c_termine, Object
         [Val ''1 janvier 2024 11:00:00'', Val ''1 janvier 2024 11:00:00'',
          Val ''1 janvier 2024 11:00:00'', Val ''3 janvier 2024 09:45:00'',
          Val ''1 janvier 2024 11:00:00'', Val ''3 janvier 2024 09:45:00'',
          Val ''1 janvier 2024 11:00:00'']),
      (c_statut, Object [Val terminee, Val terminee, Val terminee, Val terminee,
                         Val terminee, Val terminee, Val ''En cours''])]"

definition demo_frame :: "rat frame" where
  "demo_frame =
     [(c_nom, Object [Val ''Durand'', Val ''Durand'', Val ''Abel'', Val ''Durand'',
                      Val ''Martin'', Val ''Martin'', Val ''Durand'']),
      (c_prenom, Object [Val ''Zoe'', Val ''Zoe'', Val ''Max'', Val ''Zoe'',
                         Val ''Lea'', Val ''Lea'', Val ''Zoe'']),
      (c_statut, Object [Val terminee, Val terminee, Val terminee, Val terminee,
                         Val terminee, Val terminee, Val ''En cours'']),
      (c_commence, Datetime64 [Val 37800, Val 37800, Val 37800, Val 205200,
                               Val 37800, Val 205200, Val 37800]),
      (c_termine, Datetime64 [Val 39600, Val 39600, Val 39600, Val 207900,
                              Val 39600, Val 207900, Val 39600]),
      (c_note, Float64 [Val (25 / 2), Val 0, Val (31 / 2), Val 18, Val 0, Val 0, Val (31 / 2)]),
      (''Question 1'', Object [Val ''ok'', NA, Val ''ok'', Val ''ok'', NA, NA, Val ''ok''])]"

definition demo_row :: "nat \<Rightarrow> string \<Rightarrow> string \<Rightarrow> string \<Rightarrow> time \<Rightarrow> time \<Rightarrow> rat \<Rightarrow> rat activity" where
  "demo_row i l p s c t n =
     \<lparr>label = i, nom = Val l, prenom = Val p, statut = Val s,
      commence = Val c, termine = Val t, note20 = Val n\<rparr>"

definition demo_rows :: "rat activity list" where
  "demo_rows =
     [demo_row 0 ''Durand'' ''Zoe'' terminee 37800 39600 (25 / 2),
      demo_row 1 ''Durand'' ''Zoe'' terminee 37800 39600 0,
      demo_row 2 ''Abel'' ''Max'' terminee 37800 39600 (31 / 2),
      demo_row 3 ''Durand'' ''Zoe'' terminee 205200 207900 18,
      demo_row 4 ''Martin'' ''Lea'' terminee 37800 39600 0,
      demo_row 5 ''Martin'' ''Lea'' terminee 205200 207900 0,
      demo_row 6 ''Durand'' ''Zoe'' ''En cours'' 37800 39600 (31 / 2)]"

definition durand_zoe :: "(string \<times> string) \<times> rat activity list" where
  "durand_zoe =
     ((''Durand'', ''Zoe''),
      [demo_row 0 ''Durand'' ''Zoe'' terminee 37800 39600 (25 / 2),
       demo_row 1 ''Durand'' ''Zoe'' terminee 37800 39600 0,
       demo_row 3 ''Durand'' ''Zoe'' terminee 205200 207900 18,
       demo_row 6 ''Durand'' ''Zoe'' ''En cours'' 37800 39600 (31 / 2)])"

definition demo_filter :: "(string \<times> bool) list" where
  "demo_filter = [(''Abel Max'', False), (''Durand Zoe'', True), (''Martin Lea'', True)]"

definition demo_window :: "qtable \<Rightarrow> rat main_window" where
  "demo_window t =
     \<lparr>data = Some demo_frame, model = Some demo_frame, student_filter = demo_filter,
      schedule = t\<rparr>"

definition empty_window :: "rat main_window" where
  "empty_window = \<lparr>data = None, model = None, student_filter = [], schedule = []\<rparr>"

text \<open>
  Schedule tables: one interval over the four days; two intervals that overlap on the
  first day; an interval whose start is no date, before a valid one.
\<close>

definition one_interval :: qtable where
  "one_interval = [(Some ''2024-01-01 00:00'', Some ''2024-01-04 00:00'')]"

definition two_intervals :: qtable where
  "two_intervals =
     [(Some ''2024-01-01 00:00'', Some ''2024-01-02 00:00''),
      (Some ''2024-01-01 10:00'', Some ''2024-01-04 00:00'')]"

definition bad_interval :: qtable where
  "bad_interval =
     [(Some ''abc'', Some ''2024-01-02 00:00''),
      (Some ''2024-01-01 00:00'', Some ''2024-01-04 00:00'')]"

definition demo_results :: "result_row list" where
  "demo_results =
     [\<lparr>col_student = ''Durand Zoe'', col_max = ''18.00'', col_notes = ''12.50, 0.00, 18.00''\<rparr>,
      \<lparr>col_student = ''Martin Lea'', col_max = [], col_notes = ''0.00, 0.00''\<rparr>]"

definition demo_results_two :: "result_row list" where
  "demo_results_two =
     [\<lparr>col_student = ''Durand Zoe'', col_max = ''18.00'',
       col_notes = ''12.50, 0.00, 12.50, 0.00, 18.00''\<rparr>,
      \<lparr>col_student = ''Martin Lea'', col_max = [], col_notes = ''0.00, 0.00, 0.00''\<rparr>]"

text \<open>
  CSV files that fail to load: one without the status column (and with a start that is
  no date and a score that is no number), one with a score that is no number; and the
  second with its two date columns converted.
\<close>

definition csv_without_statut :: "rat frame" where
  "csv_without_statut =
     [(c_nom, Object [Val ''Abel'']),
      (c_prenom, Object [Val ''Max'']),
      (c_commence, Object [Val ''hier'']),
      (c_termine, Object [Val ''1 janvier 2024 11:00:00'']),
      (c_note, Object [Val ''abc''])]"

definition csv_bad_score :: "rat frame" where
  "csv_bad_score =
     [(c_nom, Object [Val ''Abel'']),
      (c_prenom, Object [Val ''Max'']),
      (c_statut, Object [Val terminee]),
      (c_commence, Object [Val ''1 janvier 2024 10:30:00'']),
      (c_termine, Object [Val ''1 janvier 2024 11:00:00'']),
      (c_note, Object [Val ''abc''])]"

definition csv_bad_score_dates_converted :: "rat frame" where
  "csv_bad_score_dates_converted =
     [(c_nom, Object [Val ''Abel'']),
      (c_prenom, Object [Val ''Max'']),
      (c_statut, Object [Val terminee]),
      (c_commence, Datetime64 [Val 37800]),
      (c_termine, Datetime64 [Val 39600]),
      (c_note, Object [Val ''abc''])]"

text \<open>
  Schedule widgets: the class Math with one interval typed in the table; the widget after
  saving it; the widget with no class and an empty table.
\<close>

definition math_widget :: two_column_widget where
  "math_widget =
     \<lparr>class_info = [(''Math'', [])], class_selection = [''Math''], currentIndex = 0,
      table = [(Some ''2024-01-01 00:00'', Some ''2024-01-02 00:00'')]\<rparr>"

definition math_saved :: two_column_widget where
  "math_saved =
     \<lparr>class_info = [(''Math'', [(''2024-01-01 00:00'', ''2024-01-02 00:00'')])],
      class_selection = [''Math''], currentIndex = 0,
      table = [(Some ''2024-01-01 00:00'', Some ''2024-01-02 00:00'')]\<rparr>"

definition no_class_widget :: two_column_widget where
  "no_class_widget = \<lparr>class_info = [], class_selection = [], currentIndex = - 1, table = []\<rparr>"

text \<open>
  The application before a file is opened: no file name shown, the main window of the
  example with an empty schedule, no message box shown.
\<close>

definition demo_app :: "rat app" where
  "demo_app = \<lparr>input_file = [], window = demo_window [], shown = []\<rparr>"

section \<open>Extracting the schedule rows\<close>

text \<open>
  C10.  \<open>get_data\<close> returns one pair of texts per table row, in row order, with the
  empty text for a cell that has no item, so that a row with two untouched cells gives
  the pair of empty texts; it has no failing branch.
\<close>

theorem get_data_one_pair_per_row:
  "length (get_data t) = rowCount t \<and>
   (\<forall>row < rowCount t.
      get_data t ! row =
        ((case item t row 0 of Some x \<Rightarrow> x | None \<Rightarrow> []),
         (case item t row 1 of Some x \<Rightarrow> x | None \<Rightarrow> [])) \<and>
      (item t row 0 = None \<and> item t row 1 = None \<longrightarrow> get_data t ! row = ([], [])))"
  by (simp add: get_data_def cell_text_def)

text \<open>A table of two rows: one with a start only, one untouched.\<close>

theorem get_data_one_pair_per_row_witness:
  "length (get_data [(Some ''2024-01-01 00:00'', None), (None, None)]) = 2 \<and>
   get_data [(Some ''2024-01-01 00:00'', None), (None, None)] ! 0 = (''2024-01-01 00:00'', []) \<and>
   get_data [(Some ''2024-01-01 00:00'', None), (None, None)] ! 1 = ([], [])"
  using get_data_one_pair_per_row [of "[(Some ''2024-01-01 00:00'', None), (None, None)]"]
  by (simp add: rowCount_def item_def)


section \<open>Filtering by the schedule\<close>

lemma inside_code:
  assumes "Timestamp lib start = Some a" "Timestamp lib end' = Some b"
  shows "inside lib (start, end') r =
         ((case a of NA \<Rightarrow> False | Val s \<Rightarrow> (case commence r of NA \<Rightarrow> False | Val t \<Rightarrow> s \<le> t)) \<and>
          (case b of NA \<Rightarrow> False | Val e \<Rightarrow> (case termine r of NA \<Rightarrow> False | Val t \<Rightarrow> t \<le> e)))"
  using assms
  by (cases a; cases b; cases "commence r"; cases "termine r") (simp_all add: inside_def)

lemma select_rows_ok:
  assumes "is_date lib (fst interval)" "is_date lib (snd interval)"
  shows "select_rows lib rfc interval = Inr [r \<leftarrow> rfc. inside lib interval r]"
proof -
  obtain start end' where iv: "interval = (start, end')" by (cases interval)
  from assms obtain a b where a: "Timestamp lib start = Some a" and b: "Timestamp lib end' = Some b"
    by (auto simp: is_date_def iv)
  show ?thesis
    unfolding iv inside_code [OF a b]
    by (cases a; cases b) (simp_all add: a b select_rows_def ge_start_def le_end_def)
qed

lemma select_rows_bad:
  assumes "\<not> is_date lib (fst interval) \<or> \<not> is_date lib (snd interval)"
  shows "select_rows lib rfc interval = Inl InvalidComparison"
  using assms
  by (cases interval)
     (auto simp: is_date_def select_rows_def ge_start_def le_end_def split: option.splits na.splits)

lemma select_rows_cases:
  "select_rows lib rfc interval = Inl InvalidComparison \<or>
   select_rows lib rfc interval = Inr [r \<leftarrow> rfc. inside lib interval r]"
  using select_rows_ok [of lib interval rfc] select_rows_bad [of lib interval rfc] by blast

lemma filter_schedule_ok:
  assumes "\<forall>interval \<in> set schedule_data. is_date lib (fst interval) \<and> is_date lib (snd interval)"
  shows "filter_schedule lib rfc schedule_data df =
         Inr (df @ concat (map (\<lambda>interval. [r \<leftarrow> rfc. inside lib interval r]) schedule_data))"
  using assms
proof (induction schedule_data arbitrary: df)
  case Nil
  then show ?case by simp
next
  case (Cons interval rest)
  then show ?case by (simp add: select_rows_ok)
qed

lemma filter_schedule_bad:
  assumes "interval \<in> set schedule_data"
    and "\<not> is_date lib (fst interval) \<or> \<not> is_date lib (snd interval)"
  shows "filter_schedule lib rfc schedule_data df = Inl InvalidComparison"
  using assms
proof (induction schedule_data arbitrary: df)
  case Nil
  then show ?case by simp
next
  case (Cons first rest)
  show ?case
  proof (cases "first = interval")
    case True
    with Cons.prems show ?thesis by (simp add: select_rows_bad)
  next
    case False
    with Cons.prems have "interval \<in> set rest" by simp
    from Cons.IH [OF this Cons.prems(2)] show ?thesis
      using select_rows_cases [of lib rfc first] by auto
  qed
qed


section \<open>The loop over the students\<close>

lemma compute_loop_ok:
  assumes "\<forall>interval \<in> set (get_data (schedule parent)).
             is_date lib (fst interval) \<and> is_date lib (snd interval)"
  shows "compute_loop lib parent student =
         Inr (map (result_of lib parent) (filter (selected parent) student))"
proof (induction student)
  case Nil
  then show ?case by simp
next
  case (Cons g rest)
  obtain name grp where g: "g = (name, grp)" by (cases g)
  show ?case
    using Cons.IH
    by (simp add: g selected_def result_of_def Let_def filter_schedule_ok [OF assms]
                  matched_rows_def)
qed

lemma compute_loop_none_selected:
  assumes "\<forall>g \<in> set student. \<not> selected parent g"
  shows "compute_loop lib parent student = Inr []"
  using assms by (induction student) (auto simp: selected_def)

lemma compute_loop_bad:
  assumes "interval \<in> set (get_data (schedule parent))"
    and "\<not> is_date lib (fst interval) \<or> \<not> is_date lib (snd interval)"
    and "g \<in> set student" "selected parent g"
  shows "compute_loop lib parent student = Inl InvalidComparison"
  using assms(3,4)
proof (induction student)
  case Nil
  then show ?case by simp
next
  case (Cons h rest)
  obtain name grp where h: "h = (name, grp)" by (cases h)
  show ?case
  proof (cases "selected parent h")
    case True
    then show ?thesis
      by (simp add: h selected_def Let_def filter_schedule_bad [OF assms(1,2)])
  next
    case False
    with Cons.prems have "g \<in> set rest" by auto
    from Cons.IH [OF this Cons.prems(2)] False show ?thesis
      by (simp add: h selected_def)
  qed
qed


section \<open>Rows and groups\<close>

lemma activities_labels:
  assumes "activities df = Some rows"
  shows "map label rows = [0..<length rows]"
  using assms
  by (auto simp: activities_def comp_def
           split: option.splits series.splits if_splits intro: nth_equalityI)

lemma activities_distinct:
  assumes "activities df = Some rows"
  shows "distinct rows"
proof -
  have "distinct (map label rows)"
    by (simp add: activities_labels [OF assms])
  then show ?thesis by (simp add: distinct_map)
qed

lemma groupby_keys: "map fst (groupby rows) = group_keys rows"
  by (simp add: groupby_def comp_def)

lemma group_keys_sorted: "sorted (group_keys rows) \<and> distinct (group_keys rows)"
  by (simp add: group_keys_def)

lemma group_keys_set:
  "set (group_keys rows) = {(l, p). \<exists>r \<in> set rows. nom r = Val l \<and> prenom r = Val p}"
  by (auto simp: group_keys_def split: na.splits)

lemma groupby_group:
  assumes "g \<in> set (groupby rows)"
  shows "snd g = [r \<leftarrow> rows. nom r = Val (fst (fst g)) \<and> prenom r = Val (snd (fst g))]"
  using assms by (auto simp: groupby_def)

lemma count_list_filter_distinct:
  assumes "distinct xs"
  shows "count_list (filter P xs) r = (if r \<in> set xs \<and> P r then 1 else 0)"
  using assms by (induction xs) auto

lemma count_list_concat_filter:
  assumes "distinct xs"
  shows "count_list (concat (map (\<lambda>i. filter (P i) xs) is)) r =
         (if r \<in> set xs then length (filter (\<lambda>i. P i r) is) else 0)"
  by (induction "is") (simp_all add: count_list_filter_distinct [OF assms])

lemma matched_rows_count:
  assumes "distinct grp" "r \<in> set grp" "statut r = Val terminee"
  shows "count_list (matched_rows lib schedule_data grp) r =
         length [interval \<leftarrow> schedule_data. inside lib interval r]"
  using assms by (simp add: matched_rows_def count_list_concat_filter)

lemma fold_max_Max:
  "(case ys of [] \<Rightarrow> NA | v # vs \<Rightarrow> Val (fold max vs v)) =
   (if ys = [] then NA else Val (Max (set ys)))"
proof (cases ys)
  case Nil
  then show ?thesis by simp
next
  case (Cons v vs)
  have "Max (set (v # vs)) = fold max vs v" by (rule Max.set_eq_fold)
  with Cons show ?thesis by simp
qed

lemma nanmax_Max:
  "nanmax xs = (if [v. Val v \<leftarrow> xs] = [] then NA else Val (Max (set [v. Val v \<leftarrow> xs])))"
  unfolding nanmax_def by (rule fold_max_Max)

lemma max_label_Max:
  "max_label lib scores =
     (if [v. Val v \<leftarrow> scores] = [] \<or> Max (set [v. Val v \<leftarrow> scores]) \<le> 0 then []
      else format_2f lib (Max (set [v. Val v \<leftarrow> scores])))"
  by (auto simp: max_label_def nanmax_Max)

lemma notes_label_join: "notes_label lib scores = join '', '' (map (format_cell lib) scores)"
  by (simp add: notes_label_def)

lemma compute_frame:
  assumes "data parent = Some df" "set EXPECTED_COLUMNS \<subseteq> set (columns df)"
    "activities df = Some rows"
  shows "compute lib parent = compute_loop lib parent (groupby rows)"
  using assms by (simp add: compute_def)

lemma compute_loop_Inr:
  assumes "compute_loop lib parent student = Inr results"
  shows "results = map (result_of lib parent) (filter (selected parent) student)"
proof (cases "\<forall>interval \<in> set (get_data (schedule parent)).
                 is_date lib (fst interval) \<and> is_date lib (snd interval)")
  case True
  from compute_loop_ok [OF True, of student] assms show ?thesis by simp
next
  case False
  then obtain interval where iv: "interval \<in> set (get_data (schedule parent))"
    "\<not> is_date lib (fst interval) \<or> \<not> is_date lib (snd interval)" by blast
  have none: "\<forall>g \<in> set student. \<not> selected parent g"
  proof (rule ccontr)
    assume "\<not> ?thesis"
    then obtain g where "g \<in> set student" "selected parent g" by blast
    from compute_loop_bad [OF iv this] assms show False by simp
  qed
  then have "filter (selected parent) student = []" by (simp add: filter_empty_conv)
  with compute_loop_none_selected [OF none, of lib] assms show ?thesis by simp
qed


section \<open>The example, evaluated\<close>

lemmas col_defs = c_nom_def c_prenom_def c_statut_def c_commence_def c_termine_def c_note_def
  e_acute_def terminee_def

lemma demo_columns: "set EXPECTED_COLUMNS \<subseteq> set (columns demo_frame)"
  by (simp add: EXPECTED_COLUMNS_def columns_def demo_frame_def)

lemma demo_activities: "activities demo_frame = Some demo_rows"
  by (simp add: activities_def demo_frame_def demo_rows_def demo_row_def col_defs
                upt_rec [of 0] upt_rec [of 1] upt_rec [of 2] upt_rec [of 3] upt_rec [of 4]
                upt_rec [of 5] upt_rec [of 6] upt_rec [of 7])

lemma demo_groupby:
  "groupby demo_rows =
     [((''Abel'', ''Max''), [demo_row 2 ''Abel'' ''Max'' terminee 37800 39600 (31 / 2)]),
      ((''Durand'', ''Zoe''),
       [demo_row 0 ''Durand'' ''Zoe'' terminee 37800 39600 (25 / 2),
        demo_row 1 ''Durand'' ''Zoe'' terminee 37800 39600 0,
        demo_row 3 ''Durand'' ''Zoe'' terminee 205200 207900 18,
        demo_row 6 ''Durand'' ''Zoe'' ''En cours'' 37800 39600 (31 / 2)]),
      ((''Martin'', ''Lea''),
       [demo_row 4 ''Martin'' ''Lea'' terminee 37800 39600 0,
        demo_row 5 ''Martin'' ''Lea'' terminee 205200 207900 0])]"
  by (simp add: groupby_def group_keys_def demo_rows_def demo_row_def)

lemma demo_load:
  "load_data demo_lib (Inr demo_csv) empty_window =
     (Inr (), \<lparr>data = Some demo_frame, model = Some demo_frame,
               student_filter = [(''Abel Max'', True), (''Durand Zoe'', True), (''Martin Lea'', True)],
               schedule = []\<rparr>)"
  by code_simp


section \<open>The result computation\<close>

lemma compute_ok:
  assumes "data parent = Some df" "set EXPECTED_COLUMNS \<subseteq> set (columns df)"
    "activities df = Some rows" "all_dates lib (get_data (schedule parent))"
  shows "compute lib parent =
         Inr (map (result_of lib parent) (filter (selected parent) (groupby rows)))"
proof -
  from assms(4) have "\<forall>interval \<in> set (get_data (schedule parent)).
      is_date lib (fst interval) \<and> is_date lib (snd interval)"
    by (simp add: all_dates_def list_all_iff)
  from compute_loop_ok [OF this] compute_frame [OF assms(1-3)] show ?thesis by simp
qed

lemma compute_Inr:
  assumes "data parent = Some df" "set EXPECTED_COLUMNS \<subseteq> set (columns df)"
    "activities df = Some rows" "compute lib parent = Inr results"
  shows "results = map (result_of lib parent) (filter (selected parent) (groupby rows))"
  using compute_loop_Inr [of lib parent "groupby rows" results] compute_frame [OF assms(1-3)] assms(4)
  by simp

lemma compute_bad:
  assumes "data parent = Some df" "set EXPECTED_COLUMNS \<subseteq> set (columns df)"
    "activities df = Some rows"
    and "interval \<in> set (get_data (schedule parent))"
    and "\<not> is_date lib (fst interval) \<or> \<not> is_date lib (snd interval)"
    and "g \<in> set (groupby rows)" "selected parent g"
  shows "compute lib parent = Inl InvalidComparison"
  using compute_loop_bad [OF assms(4-7)] compute_frame [OF assms(1-3)] by simp

lemma compute_none_selected:
  assumes "data parent = Some df" "set EXPECTED_COLUMNS \<subseteq> set (columns df)"
    "activities df = Some rows"
    and "\<forall>g \<in> set (groupby rows). \<not> selected parent g"
  shows "compute lib parent = Inr []"
  using compute_loop_none_selected [OF assms(4)] compute_frame [OF assms(1-3)] by simp

lemma select_rows_NaT:
  assumes "Timestamp lib start = Some NA \<and> is_date lib end' \<or>
           is_date lib start \<and> Timestamp lib end' = Some NA"
  shows "select_rows lib rfc (start, end') = Inr []"
proof -
  from assms have d: "is_date lib (fst (start, end'))" "is_date lib (snd (start, end'))"
    by (auto simp: is_date_def)
  from assms have "\<And>r. \<not> inside lib (start, end') r"
    by (auto simp: inside_def split: option.splits na.splits)
  with select_rows_ok [OF d, of rfc] show ?thesis by simp
qed

lemma demo_data: "data (demo_window t) = Some demo_frame"
  by (simp add: demo_window_def)

lemma demo_compute_one: "compute demo_lib (demo_window one_interval) = Inr demo_results"
  by code_simp

lemma demo_compute_two: "compute demo_lib (demo_window two_intervals) = Inr demo_results_two"
  by code_simp

text \<open>
  C1 as stated fails: with the intervals ("abc", "2024-01-02 00:00") and
  ("2024-01-01 00:00", "2024-01-04 00:00"), the second valid and matching rows of both
  selected students, \<open>compute\<close> raises and yields no row, while with the valid interval
  alone it yields the rows of both students.
\<close>

theorem compute_aborts_on_bad_interval:
  "compute demo_lib (demo_window bad_interval) = Inl InvalidComparison \<and>
   compute demo_lib (demo_window one_interval) = Inr demo_results"
proof -
  have "compute demo_lib (demo_window bad_interval) = Inl InvalidComparison"
    by code_simp
  with demo_compute_one show ?thesis by simp
qed

text \<open>
  C1 (as amended).  When the start or the end text of an interval of the schedule is no
  date, \<open>compute\<close> raises the \<open>TypeError\<close> of the comparison as soon as one student of
  the table is selected, whatever the other intervals are, and produces no result row;
  only when no student of the table is selected does it return, with no row.  An
  interval with a text that pandas reads as the missing timestamp \<open>NaT\<close> (the other
  text being a date or \<open>NaT\<close>) selects no row and raises nothing.
\<close>

theorem compute_raises_on_invalid_interval:
  assumes "data parent = Some df" "set EXPECTED_COLUMNS \<subseteq> set (columns df)"
    "activities df = Some rows"
    and "(start, end') \<in> set (get_data (schedule parent))"
    and "\<not> is_date lib start \<or> \<not> is_date lib end'"
  shows "((\<exists>g \<in> set (groupby rows). selected parent g) \<longrightarrow>
            compute lib parent = Inl InvalidComparison) \<and>
         ((\<forall>g \<in> set (groupby rows). \<not> selected parent g) \<longrightarrow> compute lib parent = Inr []) \<and>
         (Timestamp lib s = Some NA \<and> is_date lib e \<or> is_date lib s \<and> Timestamp lib e = Some NA \<longrightarrow>
            select_rows lib rfc (s, e) = Inr [])"
proof (intro conjI impI)
  assume "\<exists>g \<in> set (groupby rows). selected parent g"
  then obtain g where g: "g \<in> set (groupby rows)" "selected parent g" by blast
  from assms(5) have "\<not> is_date lib (fst (start, end')) \<or> \<not> is_date lib (snd (start, end'))"
    by simp
  from compute_bad [OF assms(1-4) this g] show "compute lib parent = Inl InvalidComparison" .
next
  assume "\<forall>g \<in> set (groupby rows). \<not> selected parent g"
  from compute_none_selected [OF assms(1-3) this] show "compute lib parent = Inr []" .
next
  assume "Timestamp lib s = Some NA \<and> is_date lib e \<or> is_date lib s \<and> Timestamp lib e = Some NA"
  then show "select_rows lib rfc (s, e) = Inr []" by (rule select_rows_NaT)
qed

lemma demo_bad_member:
  "(''abc'', ''2024-01-02 00:00'') \<in> set (get_data (schedule (demo_window bad_interval)))"
  by (simp add: demo_window_def bad_interval_def get_data_def rowCount_def item_def cell_text_def
                upt_rec [of 0] upt_rec [of 1] upt_rec [of 2])

lemma demo_abc_no_date: "\<not> is_date demo_lib ''abc''"
  by (simp add: is_date_def demo_lib_def)

lemma demo_selected:
  "selected (demo_window t)
     ((''Durand'', ''Zoe''),
      [demo_row 0 ''Durand'' ''Zoe'' terminee 37800 39600 (25 / 2),
       demo_row 1 ''Durand'' ''Zoe'' terminee 37800 39600 0,
       demo_row 3 ''Durand'' ''Zoe'' terminee 205200 207900 18,
       demo_row 6 ''Durand'' ''Zoe'' ''En cours'' 37800 39600 (31 / 2)])"
  by (simp add: selected_def demo_window_def demo_filter_def checked_items_def full_name_def)

text \<open>
  The example with the schedule whose first interval starts with the text "abc".
\<close>

theorem compute_raises_on_invalid_interval_witness:
  "data (demo_window bad_interval) = Some demo_frame \<and>
   set EXPECTED_COLUMNS \<subseteq> set (columns demo_frame) \<and>
   activities demo_frame = Some demo_rows \<and>
   (''abc'', ''2024-01-02 00:00'') \<in> set (get_data (schedule (demo_window bad_interval))) \<and>
   \<not> is_date demo_lib ''abc'' \<and>
   is_date demo_lib ''2024-01-01 00:00'' \<and> is_date demo_lib ''2024-01-04 00:00'' \<and>
   compute demo_lib (demo_window bad_interval) = Inl InvalidComparison \<and>
   Timestamp demo_lib ''NaT'' = Some NA \<and>
   select_rows demo_lib demo_rows (''NaT'', ''2024-01-04 00:00'') = Inr []"
proof -
  have sel: "\<exists>g \<in> set (groupby demo_rows). selected (demo_window bad_interval) g"
    using demo_selected [of bad_interval] by (simp add: demo_groupby)
  have d: "is_date demo_lib ''2024-01-01 00:00''" "is_date demo_lib ''2024-01-04 00:00''"
    by (simp_all add: is_date_def demo_lib_def)
  have n: "Timestamp demo_lib ''NaT'' = Some NA" by (simp add: demo_lib_def)
  have bad: "\<not> is_date demo_lib ''abc'' \<or> \<not> is_date demo_lib ''2024-01-02 00:00''"
    using demo_abc_no_date by simp
  note th = compute_raises_on_invalid_interval
    [OF demo_data demo_columns demo_activities demo_bad_member bad,
     of "''NaT''" "''2024-01-04 00:00''" demo_rows]
  from th sel have "compute demo_lib (demo_window bad_interval) = Inl InvalidComparison"
    by blast
  moreover from th n d have "select_rows demo_lib demo_rows (''NaT'', ''2024-01-04 00:00'') = Inr []"
    by blast
  ultimately show ?thesis
    using demo_data demo_columns demo_activities demo_bad_member demo_abc_no_date d n by blast
qed

text \<open>
  C3.  In the rows that \<open>compute\<close> returns, one per selected student in order, the
  label of the maximum is empty when the student has no matched row, when no matched row
  has a score that is a number, or when the maximum of these scores is at most zero;
  otherwise it is that maximum in the format \<open>.2f\<close>.  \<open>compute\<close> returns whenever all
  interval texts are dates.
\<close>

theorem max_score_no_data_marker:
  assumes "data parent = Some df" "set EXPECTED_COLUMNS \<subseteq> set (columns df)"
    "activities df = Some rows"
  shows "(all_dates lib (get_data (schedule parent)) \<longrightarrow> (\<exists>results. compute lib parent = Inr results)) \<and>
         (\<forall>results. compute lib parent = Inr results \<longrightarrow>
            list_all2
              (\<lambda>g row.
                 col_max row =
                   (let scores = [v. Val v \<leftarrow> map note20
                                     (matched_rows lib (get_data (schedule parent)) (snd g))]
                    in if scores = [] \<or> Max (set scores) \<le> 0 then []
                       else format_2f lib (Max (set scores))) \<and>
                 (matched_rows lib (get_data (schedule parent)) (snd g) = [] \<longrightarrow> col_max row = []))
              (filter (selected parent) (groupby rows)) results)"
proof (intro conjI impI allI)
  assume "all_dates lib (get_data (schedule parent))"
  from compute_ok [OF assms this] show "\<exists>results. compute lib parent = Inr results" by blast
next
  fix results
  assume "compute lib parent = Inr results"
  from compute_Inr [OF assms this]
  have r: "results = map (result_of lib parent) (filter (selected parent) (groupby rows))" .
  show "list_all2
          (\<lambda>g row.
             col_max row =
               (let scores = [v. Val v \<leftarrow> map note20
                                 (matched_rows lib (get_data (schedule parent)) (snd g))]
                in if scores = [] \<or> Max (set scores) \<le> 0 then []
                   else format_2f lib (Max (set scores))) \<and>
             (matched_rows lib (get_data (schedule parent)) (snd g) = [] \<longrightarrow> col_max row = []))
          (filter (selected parent) (groupby rows)) results"
    unfolding r list_all2_map2
    by (rule list_all2_refl) (simp add: result_of_def max_label_Max Let_def)
qed

lemma demo_all_dates_one: "all_dates demo_lib (get_data (schedule (demo_window one_interval)))"
  by (simp add: all_dates_def is_date_def demo_lib_def demo_window_def one_interval_def
                get_data_def rowCount_def item_def cell_text_def upt_rec [of 0] upt_rec [of 1])

lemma demo_all_dates_two: "all_dates demo_lib (get_data (schedule (demo_window two_intervals)))"
  by (simp add: all_dates_def is_date_def demo_lib_def demo_window_def two_intervals_def
                get_data_def rowCount_def item_def cell_text_def
                upt_rec [of 0] upt_rec [of 1] upt_rec [of 2])

text \<open>
  The example with one interval: the scores 12.5, 0 and 18 give "18.00", the scores 0
  and 0 give the empty label.
\<close>

theorem max_score_no_data_marker_witness:
  "data (demo_window one_interval) = Some demo_frame \<and>
   set EXPECTED_COLUMNS \<subseteq> set (columns demo_frame) \<and>
   activities demo_frame = Some demo_rows \<and>
   all_dates demo_lib (get_data (schedule (demo_window one_interval))) \<and>
   compute demo_lib (demo_window one_interval) = Inr demo_results \<and>
   map col_max demo_results = [''18.00'', []] \<and>
   list_all2
     (\<lambda>g row.
        col_max row =
          (let scores = [v. Val v \<leftarrow> map note20
                            (matched_rows demo_lib (get_data (schedule (demo_window one_interval)))
                               (snd g))]
           in if scores = [] \<or> Max (set scores) \<le> 0 then []
              else format_2f demo_lib (Max (set scores))) \<and>
        (matched_rows demo_lib (get_data (schedule (demo_window one_interval))) (snd g) = [] \<longrightarrow>
           col_max row = []))
     (filter (selected (demo_window one_interval)) (groupby demo_rows)) demo_results"
proof -
  have m: "map col_max demo_results = [''18.00'', []]" by (simp add: demo_results_def)
  from max_score_no_data_marker [OF demo_data [of one_interval] demo_columns demo_activities,
      where lib = demo_lib] demo_compute_one
  have "list_all2
     (\<lambda>g row.
        col_max row =
          (let scores = [v. Val v \<leftarrow> map note20
                            (matched_rows demo_lib (get_data (schedule (demo_window one_interval)))
                               (snd g))]
           in if scores = [] \<or> Max (set scores) \<le> 0 then []
              else format_2f demo_lib (Max (set scores))) \<and>
        (matched_rows demo_lib (get_data (schedule (demo_window one_interval))) (snd g) = [] \<longrightarrow>
           col_max row = []))
     (filter (selected (demo_window one_interval)) (groupby demo_rows)) demo_results"
    by blast
  with m demo_data demo_columns demo_activities demo_all_dates_one demo_compute_one
  show ?thesis by blast
qed

text \<open>
  C7.  The students named by the rows that \<open>compute\<close> returns are the full names
  "Last First" of the group keys, in the order of the keys, restricted to the names that
  are checked in the student filter: a student whose full name is not checked has no
  row.  The group keys are the pairs (last name, first name) that occur in the table,
  each once, in ascending lexicographic order.  \<open>compute\<close> returns whenever all interval
  texts are dates.
\<close>

theorem compute_rows_follow_selection:
  assumes "data parent = Some df" "set EXPECTED_COLUMNS \<subseteq> set (columns df)"
    "activities df = Some rows"
  shows "(all_dates lib (get_data (schedule parent)) \<longrightarrow> (\<exists>results. compute lib parent = Inr results)) \<and>
         (\<forall>results. compute lib parent = Inr results \<longrightarrow>
            map col_student results =
              map full_name
                (filter (\<lambda>name. full_name name \<in> set (checked_items (student_filter parent)))
                        (group_keys rows))) \<and>
         sorted (group_keys rows) \<and> distinct (group_keys rows) \<and>
         set (group_keys rows) = {(l, p). \<exists>r \<in> set rows. nom r = Val l \<and> prenom r = Val p}"
proof (intro conjI impI allI)
  assume "all_dates lib (get_data (schedule parent))"
  from compute_ok [OF assms this] show "\<exists>results. compute lib parent = Inr results" by blast
next
  fix results
  assume "compute lib parent = Inr results"
  from compute_Inr [OF assms this]
  have r: "results = map (result_of lib parent) (filter (selected parent) (groupby rows))" .
  show "map col_student results =
          map full_name
            (filter (\<lambda>name. full_name name \<in> set (checked_items (student_filter parent)))
                    (group_keys rows))"
    unfolding r
    by (simp add: groupby_def filter_map comp_def selected_def result_of_def)
next
  show "sorted (group_keys rows)" by (simp add: group_keys_sorted)
next
  show "distinct (group_keys rows)" by (simp add: group_keys_sorted)
next
  show "set (group_keys rows) = {(l, p). \<exists>r \<in> set rows. nom r = Val l \<and> prenom r = Val p}"
    by (rule group_keys_set)
qed

lemma demo_group_keys:
  "group_keys demo_rows = [(''Abel'', ''Max''), (''Durand'', ''Zoe''), (''Martin'', ''Lea'')]"
  using groupby_keys [of demo_rows] by (simp add: demo_groupby)

text \<open>
  The example: three students in the table, "Abel Max" not checked.
\<close>

theorem compute_rows_follow_selection_witness:
  "data (demo_window one_interval) = Some demo_frame \<and>
   set EXPECTED_COLUMNS \<subseteq> set (columns demo_frame) \<and>
   activities demo_frame = Some demo_rows \<and>
   all_dates demo_lib (get_data (schedule (demo_window one_interval))) \<and>
   compute demo_lib (demo_window one_interval) = Inr demo_results \<and>
   group_keys demo_rows = [(''Abel'', ''Max''), (''Durand'', ''Zoe''), (''Martin'', ''Lea'')] \<and>
   checked_items (student_filter (demo_window one_interval)) = [''Durand Zoe'', ''Martin Lea''] \<and>
   map col_student demo_results = [''Durand Zoe'', ''Martin Lea'']"
proof -
  have c: "checked_items (student_filter (demo_window one_interval)) =
           [''Durand Zoe'', ''Martin Lea'']"
    by (simp add: demo_window_def demo_filter_def checked_items_def)
  from compute_rows_follow_selection [OF demo_data [of one_interval] demo_columns demo_activities,
      where lib = demo_lib] demo_compute_one
  have "map col_student demo_results =
          map full_name
            (filter (\<lambda>name. full_name name
                       \<in> set (checked_items (student_filter (demo_window one_interval))))
                    (group_keys demo_rows))"
    by blast
  then have "map col_student demo_results = [''Durand Zoe'', ''Martin Lea'']"
    by (simp add: c demo_group_keys full_name_def)
  with c demo_group_keys demo_data demo_columns demo_activities demo_all_dates_one
    demo_compute_one
  show ?thesis by blast
qed

lemma matched_rows_subset:
  assumes "r \<in> set (matched_rows lib schedule_data grp)"
  shows "r \<in> set grp \<and> statut r = Val terminee \<and>
         (\<exists>interval \<in> set schedule_data. inside lib interval r)"
  using assms by (auto simp: matched_rows_def)

text \<open>
  C8.  The label of the notes of each selected student is the list of the scores of the
  student's matched rows, in that order, each in the format \<open>.2f\<close>, joined by ", ".
  The matched rows are the concatenation over the intervals, in stored order, of the
  student's completed rows that started at or after the interval's start and were
  completed at or before its end: a completed row occurs in them as many times as there
  are intervals it falls inside, and nothing else occurs in them.  This is what the loop
  over the schedule computes when all interval texts are dates, and then \<open>compute\<close>
  returns.
\<close>

theorem matched_rows_union_keeps_duplicates:
  assumes "data parent = Some df" "set EXPECTED_COLUMNS \<subseteq> set (columns df)"
    "activities df = Some rows"
  shows "(all_dates lib (get_data (schedule parent)) \<longrightarrow> (\<exists>results. compute lib parent = Inr results)) \<and>
         (\<forall>results. compute lib parent = Inr results \<longrightarrow>
            list_all2
              (\<lambda>g row.
                 col_notes row =
                   join '', ''
                     (map (format_cell lib)
                        (map note20 (matched_rows lib (get_data (schedule parent)) (snd g)))))
              (filter (selected parent) (groupby rows)) results) \<and>
         (\<forall>g \<in> set (groupby rows). \<forall>r \<in> set (snd g).
            statut r = Val terminee \<longrightarrow>
            count_list (matched_rows lib (get_data (schedule parent)) (snd g)) r =
              length [interval \<leftarrow> get_data (schedule parent). inside lib interval r]) \<and>
         (\<forall>g r. r \<in> set (matched_rows lib (get_data (schedule parent)) (snd g)) \<longrightarrow>
            r \<in> set (snd g) \<and> statut r = Val terminee) \<and>
         (\<forall>grp. all_dates lib (get_data (schedule parent)) \<longrightarrow>
            filter_schedule lib [r \<leftarrow> grp. statut r = Val terminee] (get_data (schedule parent)) [] =
              Inr (concat (map (\<lambda>interval. [r \<leftarrow> grp. statut r = Val terminee \<and> inside lib interval r])
                               (get_data (schedule parent)))))"
proof -
  have total: "all_dates lib (get_data (schedule parent)) \<longrightarrow>
               (\<exists>results. compute lib parent = Inr results)"
    using compute_ok [OF assms] by blast
  have texts: "\<forall>results. compute lib parent = Inr results \<longrightarrow>
            list_all2
              (\<lambda>g row.
                 col_notes row =
                   join '', ''
                     (map (format_cell lib)
                        (map note20 (matched_rows lib (get_data (schedule parent)) (snd g)))))
              (filter (selected parent) (groupby rows)) results"
  proof (intro allI impI)
    fix results
    assume "compute lib parent = Inr results"
    from compute_Inr [OF assms this]
    have r: "results = map (result_of lib parent) (filter (selected parent) (groupby rows))" .
    show "list_all2
            (\<lambda>g row.
               col_notes row =
                 join '', ''
                   (map (format_cell lib)
                      (map note20 (matched_rows lib (get_data (schedule parent)) (snd g)))))
            (filter (selected parent) (groupby rows)) results"
      unfolding r list_all2_map2
      by (rule list_all2_refl) (simp add: result_of_def notes_label_join)
  qed
  have counts: "\<forall>g \<in> set (groupby rows). \<forall>r \<in> set (snd g).
            statut r = Val terminee \<longrightarrow>
            count_list (matched_rows lib (get_data (schedule parent)) (snd g)) r =
              length [interval \<leftarrow> get_data (schedule parent). inside lib interval r]"
  proof (intro ballI impI)
    fix g r
    assume g: "g \<in> set (groupby rows)" and r: "r \<in> set (snd g)" "statut r = Val terminee"
    have "distinct (snd g)"
      unfolding groupby_group [OF g] using activities_distinct [OF assms(3)] by simp
    from matched_rows_count [OF this r]
    show "count_list (matched_rows lib (get_data (schedule parent)) (snd g)) r =
            length [interval \<leftarrow> get_data (schedule parent). inside lib interval r]" .
  qed
  have only: "\<forall>g r. r \<in> set (matched_rows lib (get_data (schedule parent)) (snd g)) \<longrightarrow>
            r \<in> set (snd g) \<and> statut r = Val terminee"
    using matched_rows_subset by blast
  have loop: "\<forall>grp. all_dates lib (get_data (schedule parent)) \<longrightarrow>
            filter_schedule lib [r \<leftarrow> grp. statut r = Val terminee] (get_data (schedule parent)) [] =
              Inr (concat (map (\<lambda>interval. [r \<leftarrow> grp. statut r = Val terminee \<and> inside lib interval r])
                               (get_data (schedule parent))))"
  proof (intro allI impI)
    fix grp
    assume "all_dates lib (get_data (schedule parent))"
    then have "\<forall>interval \<in> set (get_data (schedule parent)).
        is_date lib (fst interval) \<and> is_date lib (snd interval)"
      by (simp add: all_dates_def list_all_iff)
    from filter_schedule_ok [OF this, of "[r \<leftarrow> grp. statut r = Val terminee]" "[]"]
    show "filter_schedule lib [r \<leftarrow> grp. statut r = Val terminee] (get_data (schedule parent)) [] =
            Inr (concat (map (\<lambda>interval. [r \<leftarrow> grp. statut r = Val terminee \<and> inside lib interval r])
                             (get_data (schedule parent))))"
      by simp
  qed
  from total texts counts only loop show ?thesis by (intro conjI)
qed

lemma durand_zoe_group: "durand_zoe \<in> set (groupby demo_rows)"
  by (simp add: demo_groupby durand_zoe_def)

text \<open>
  The example with two overlapping intervals: the first row of "Durand Zoe" falls inside
  both and occurs twice, the row of the third day falls inside the second only.
\<close>

theorem matched_rows_union_keeps_duplicates_witness:
  "data (demo_window two_intervals) = Some demo_frame \<and>
   set EXPECTED_COLUMNS \<subseteq> set (columns demo_frame) \<and>
   activities demo_frame = Some demo_rows \<and>
   all_dates demo_lib (get_data (schedule (demo_window two_intervals))) \<and>
   compute demo_lib (demo_window two_intervals) = Inr demo_results_two \<and>
   map col_notes demo_results_two = [''12.50, 0.00, 12.50, 0.00, 18.00'', ''0.00, 0.00, 0.00''] \<and>
   durand_zoe \<in> set (groupby demo_rows) \<and>
   demo_row 0 ''Durand'' ''Zoe'' terminee 37800 39600 (25 / 2) \<in> set (snd durand_zoe) \<and>
   count_list (matched_rows demo_lib (get_data (schedule (demo_window two_intervals))) (snd durand_zoe))
     (demo_row 0 ''Durand'' ''Zoe'' terminee 37800 39600 (25 / 2)) = 2 \<and>
   count_list (matched_rows demo_lib (get_data (schedule (demo_window two_intervals))) (snd durand_zoe))
     (demo_row 3 ''Durand'' ''Zoe'' terminee 205200 207900 18) = 1"
proof -
  note th = matched_rows_union_keeps_duplicates
    [OF demo_data [of two_intervals] demo_columns demo_activities, where lib = demo_lib]
  have sched: "get_data (schedule (demo_window two_intervals)) =
      [(''2024-01-01 00:00'', ''2024-01-02 00:00''), (''2024-01-01 10:00'', ''2024-01-04 00:00'')]"
    by (simp add: demo_window_def two_intervals_def get_data_def rowCount_def item_def
                  cell_text_def upt_rec [of 0] upt_rec [of 1] upt_rec [of 2])
  have r0: "demo_row 0 ''Durand'' ''Zoe'' terminee 37800 39600 (25 / 2) \<in> set (snd durand_zoe)"
    and r3: "demo_row 3 ''Durand'' ''Zoe'' terminee 205200 207900 18 \<in> set (snd durand_zoe)"
    by (simp_all add: durand_zoe_def)
  have s0: "statut (demo_row 0 ''Durand'' ''Zoe'' terminee 37800 39600 (25 / 2)) = Val terminee"
    and s3: "statut (demo_row 3 ''Durand'' ''Zoe'' terminee 205200 207900 18) = Val terminee"
    by (simp_all add: demo_row_def)
  from th durand_zoe_group r0 s0
  have "count_list (matched_rows demo_lib (get_data (schedule (demo_window two_intervals)))
                      (snd durand_zoe))
          (demo_row 0 ''Durand'' ''Zoe'' terminee 37800 39600 (25 / 2)) =
        length [interval \<leftarrow> get_data (schedule (demo_window two_intervals)).
                  inside demo_lib interval (demo_row 0 ''Durand'' ''Zoe'' terminee 37800 39600 (25 / 2))]"
    by blast
  then have c0: "count_list (matched_rows demo_lib (get_data (schedule (demo_window two_intervals)))
                      (snd durand_zoe))
          (demo_row 0 ''Durand'' ''Zoe'' terminee 37800 39600 (25 / 2)) = 2"
    by (simp add: sched inside_def demo_lib_def demo_row_def)
  from th durand_zoe_group r3 s3
  have "count_list (matched_rows demo_lib (get_data (schedule (demo_window two_intervals)))
                      (snd durand_zoe))
          (demo_row 3 ''Durand'' ''Zoe'' terminee 205200 207900 18) =
        length [interval \<leftarrow> get_data (schedule (demo_window two_intervals)).
                  inside demo_lib interval (demo_row 3 ''Durand'' ''Zoe'' terminee 205200 207900 18)]"
    by blast
  then have c3: "count_list (matched_rows demo_lib (get_data (schedule (demo_window two_intervals)))
                      (snd durand_zoe))
          (demo_row 3 ''Durand'' ''Zoe'' terminee 205200 207900 18) = 1"
    by (simp add: sched inside_def demo_lib_def demo_row_def)
  have n: "map col_notes demo_results_two =
           [''12.50, 0.00, 12.50, 0.00, 18.00'', ''0.00, 0.00, 0.00'']"
    by (simp add: demo_results_two_def)
  from c0 c3 n r0 durand_zoe_group demo_data [of two_intervals] demo_columns demo_activities
    demo_all_dates_two demo_compute_two
  show ?thesis by (intro conjI)
qed


section \<open>Loading a CSV\<close>

lemma names_differ:
  "c_termine \<noteq> c_commence" "c_note \<noteq> c_commence" "c_note \<noteq> c_termine"
  "c_commence \<noteq> c_termine" "c_commence \<noteq> c_note" "c_termine \<noteq> c_note"
  by (simp_all add: col_defs)

lemma check_missing_ok:
  assumes "set EXPECTED_COLUMNS \<subseteq> set (columns df)"
  shows "check_missing df = (Inr (), df)"
  using assms by (simp add: check_missing_def Let_def)

lemma check_missing_fails:
  assumes "set EXPECTED_COLUMNS - set (columns df) \<noteq> {}"
  shows "check_missing df = (Inl (MissingRequired (set EXPECTED_COLUMNS - set (columns df))), df)"
  using assms by (simp add: check_missing_def Let_def)

lemma convert_fails:
  assumes "map_of df col = Some s" "g s = Inl e"
  shows "convert g col df = (Inl e, df)"
  using assms by (simp add: convert_def getitem_def)

lemma convert_ok:
  assumes "map_of df col = Some s" "g s = Inr s'"
  shows "convert g col df = (Inr (), setitem df col s')"
  using assms by (simp add: convert_def getitem_def)

lemma map_of_setitem:
  assumes "col' \<noteq> col"
  shows "map_of (setitem df col s) col' = map_of df col'"
  using assms by (simp add: setitem_def update_conv')

lemma preprocess_missing:
  assumes "set EXPECTED_COLUMNS - set (columns df) \<noteq> {}"
  shows "preprocess lib df = (Inl (MissingRequired (set EXPECTED_COLUMNS - set (columns df))), df)"
  by (simp add: preprocess_def seq_def check_missing_fails [OF assms])

lemma preprocess_first_date:
  assumes "set EXPECTED_COLUMNS \<subseteq> set (columns df)"
    "map_of df c_commence = Some s1" "to_datetime lib s1 = Inl e"
  shows "preprocess lib df = (Inl e, df)"
  by (simp add: preprocess_def seq_def check_missing_ok [OF assms(1)]
                convert_fails [OF assms(2), of "to_datetime lib", OF assms(3)])

lemma preprocess_second_date:
  assumes "set EXPECTED_COLUMNS \<subseteq> set (columns df)"
    "map_of df c_commence = Some s1" "to_datetime lib s1 = Inr s1'"
    "map_of df c_termine = Some s2" "to_datetime lib s2 = Inl e"
  shows "preprocess lib df = (Inl e, setitem df c_commence s1')"
proof -
  have "map_of (setitem df c_commence s1') c_termine = Some s2"
    by (simp add: map_of_setitem names_differ assms(4))
  from convert_fails [OF this, of "to_datetime lib", OF assms(5)] show ?thesis
    by (simp add: preprocess_def seq_def check_missing_ok [OF assms(1)]
                  convert_ok [OF assms(2), of "to_datetime lib", OF assms(3)])
qed

lemma preprocess_score:
  assumes "set EXPECTED_COLUMNS \<subseteq> set (columns df)"
    "map_of df c_commence = Some s1" "to_datetime lib s1 = Inr s1'"
    "map_of df c_termine = Some s2" "to_datetime lib s2 = Inr s2'"
    "map_of df c_note = Some s3" "apply_to_float lib s3 = Inl e"
  shows "preprocess lib df = (Inl e, setitem (setitem df c_commence s1') c_termine s2')"
proof -
  have t: "map_of (setitem df c_commence s1') c_termine = Some s2"
    by (simp add: map_of_setitem names_differ assms(4))
  have n: "map_of (setitem (setitem df c_commence s1') c_termine s2') c_note = Some s3"
    by (simp add: map_of_setitem names_differ assms(6))
  from convert_fails [OF n, of "apply_to_float lib", OF assms(7)] show ?thesis
    by (simp add: preprocess_def seq_def check_missing_ok [OF assms(1)]
                  convert_ok [OF assms(2), of "to_datetime lib", OF assms(3)]
                  convert_ok [OF t, of "to_datetime lib", OF assms(5)])
qed

lemma load_data_preprocess_fails:
  assumes "preprocess lib df = (Inl e, df')"
  shows "load_data lib (Inr df) parent = (Inl e, parent\<lparr>data := Some df'\<rparr>)"
  using assms by (simp add: load_data_def)

lemma load_data_failure_keeps_view:
  assumes "load_data lib read_csv parent = (Inl e, p')" "e \<noteq> NotModelled"
  shows "model p' = model parent \<and> student_filter p' = student_filter parent \<and>
         schedule p' = schedule parent"
  using assms
  by (auto simp: load_data_def split: sum.splits prod.splits option.splits)

text \<open>
  C5.  When the table read from the CSV lacks a required column, \<open>load_data\<close> raises
  the error that names exactly the required columns that are missing, and
  \<open>parent.data\<close> is the table as read: no date or score was parsed and no column
  moved, whatever the cells hold and whatever the library would answer.
\<close>

theorem load_data_missing_columns:
  assumes "set EXPECTED_COLUMNS - set (columns df) \<noteq> {}"
  shows "load_data lib (Inr df) parent =
           (Inl (MissingRequired (set EXPECTED_COLUMNS - set (columns df))),
            parent\<lparr>data := Some df\<rparr>)"
  by (rule load_data_preprocess_fails [OF preprocess_missing [OF assms]])

lemma missing_without_statut:
  "set EXPECTED_COLUMNS - set (columns csv_without_statut) = {c_statut}"
  by (auto simp: EXPECTED_COLUMNS_def columns_def csv_without_statut_def col_defs)

text \<open>
  A CSV without the status column, whose start date and score would not parse.
\<close>

theorem load_data_missing_columns_witness:
  "set EXPECTED_COLUMNS - set (columns csv_without_statut) \<noteq> {} \<and>
   set EXPECTED_COLUMNS - set (columns csv_without_statut) = {c_statut} \<and>
   load_data demo_lib (Inr csv_without_statut) empty_window =
     (Inl (MissingRequired {c_statut}), empty_window\<lparr>data := Some csv_without_statut\<rparr>)"
proof -
  have ne: "set EXPECTED_COLUMNS - set (columns csv_without_statut) \<noteq> {}"
    by (simp add: missing_without_statut)
  from load_data_missing_columns [OF ne, of demo_lib empty_window] ne missing_without_statut
  show ?thesis by simp
qed

text \<open>
  C2 (as amended).  A load that fails because the file cannot be read leaves the window
  as it was.  A load that fails at a later step leaves the table model, the student
  filter and the schedule as they were, but \<open>parent.data\<close> is already replaced: by the
  table as read when a required column is missing or the start dates do not parse, by
  that table with the start dates converted when the completion dates do not parse, and
  with both date columns converted when the scores do not parse.
\<close>

theorem load_data_failure_state:
  "load_data lib (Inl e) parent = (Inl e, parent) \<and>
   (set EXPECTED_COLUMNS - set (columns df) \<noteq> {} \<longrightarrow>
      load_data lib (Inr df) parent =
        (Inl (MissingRequired (set EXPECTED_COLUMNS - set (columns df))), parent\<lparr>data := Some df\<rparr>)) \<and>
   (set EXPECTED_COLUMNS \<subseteq> set (columns df) \<and>
    map_of df c_commence = Some s1 \<and> to_datetime lib s1 = Inl e \<longrightarrow>
      load_data lib (Inr df) parent = (Inl e, parent\<lparr>data := Some df\<rparr>)) \<and>
   (set EXPECTED_COLUMNS \<subseteq> set (columns df) \<and>
    map_of df c_commence = Some s1 \<and> to_datetime lib s1 = Inr s1' \<and>
    map_of df c_termine = Some s2 \<and> to_datetime lib s2 = Inl e \<longrightarrow>
      load_data lib (Inr df) parent = (Inl e, parent\<lparr>data := Some (setitem df c_commence s1')\<rparr>)) \<and>
   (set EXPECTED_COLUMNS \<subseteq> set (columns df) \<and>
    map_of df c_commence = Some s1 \<and> to_datetime lib s1 = Inr s1' \<and>
    map_of df c_termine = Some s2 \<and> to_datetime lib s2 = Inr s2' \<and>
    map_of df c_note = Some s3 \<and> apply_to_float lib s3 = Inl e \<longrightarrow>
      load_data lib (Inr df) parent =
        (Inl e, parent\<lparr>data := Some (setitem (setitem df c_commence s1') c_termine s2')\<rparr>)) \<and>
   (load_data lib read_csv parent = (Inl e, p') \<and> e \<noteq> NotModelled \<longrightarrow>
      model p' = model parent \<and> student_filter p' = student_filter parent \<and>
      schedule p' = schedule parent)"
proof (intro conjI impI)
  show "load_data lib (Inl e) parent = (Inl e, parent)" by (simp add: load_data_def)
next
  assume "set EXPECTED_COLUMNS - set (columns df) \<noteq> {}"
  from load_data_preprocess_fails [OF preprocess_missing [OF this]]
  show "load_data lib (Inr df) parent =
        (Inl (MissingRequired (set EXPECTED_COLUMNS - set (columns df))), parent\<lparr>data := Some df\<rparr>)" .
next
  assume "set EXPECTED_COLUMNS \<subseteq> set (columns df) \<and>
    map_of df c_commence = Some s1 \<and> to_datetime lib s1 = Inl e"
  then have "preprocess lib df = (Inl e, df)" by (blast intro: preprocess_first_date)
  from load_data_preprocess_fails [OF this]
  show "load_data lib (Inr df) parent = (Inl e, parent\<lparr>data := Some df\<rparr>)" .
next
  assume "set EXPECTED_COLUMNS \<subseteq> set (columns df) \<and>
    map_of df c_commence = Some s1 \<and> to_datetime lib s1 = Inr s1' \<and>
    map_of df c_termine = Some s2 \<and> to_datetime lib s2 = Inl e"
  then have "preprocess lib df = (Inl e, setitem df c_commence s1')"
    by (blast intro: preprocess_second_date)
  from load_data_preprocess_fails [OF this]
  show "load_data lib (Inr df) parent = (Inl e, parent\<lparr>data := Some (setitem df c_commence s1')\<rparr>)" .
next
  assume "set EXPECTED_COLUMNS \<subseteq> set (columns df) \<and>
    map_of df c_commence = Some s1 \<and> to_datetime lib s1 = Inr s1' \<and>
    map_of df c_termine = Some s2 \<and> to_datetime lib s2 = Inr s2' \<and>
    map_of df c_note = Some s3 \<and> apply_to_float lib s3 = Inl e"
  then have "preprocess lib df = (Inl e, setitem (setitem df c_commence s1') c_termine s2')"
    by (blast intro: preprocess_score)
  from load_data_preprocess_fails [OF this]
  show "load_data lib (Inr df) parent =
        (Inl e, parent\<lparr>data := Some (setitem (setitem df c_commence s1') c_termine s2')\<rparr>)" .
next
  assume "load_data lib read_csv parent = (Inl e, p') \<and> e \<noteq> NotModelled"
  then have "model p' = model parent \<and> student_filter p' = student_filter parent \<and>
      schedule p' = schedule parent"
    using load_data_failure_keeps_view by blast
  then show "model p' = model parent" "student_filter p' = student_filter parent"
    "schedule p' = schedule parent" by simp_all
qed

lemma bad_score_columns: "set EXPECTED_COLUMNS \<subseteq> set (columns csv_bad_score)"
  by (simp add: EXPECTED_COLUMNS_def columns_def csv_bad_score_def)

lemma bad_score_cols:
  "map_of csv_bad_score c_commence = Some (Object [Val ''1 janvier 2024 10:30:00''])"
  "map_of csv_bad_score c_termine = Some (Object [Val ''1 janvier 2024 11:00:00''])"
  "map_of csv_bad_score c_note = Some (Object [Val ''abc''])"
  by (simp_all add: csv_bad_score_def col_defs)

lemma bad_score_conv:
  "to_datetime demo_lib (Object [Val ''1 janvier 2024 10:30:00'']) = Inr (Datetime64 [Val 37800])"
  "to_datetime demo_lib (Object [Val ''1 janvier 2024 11:00:00'']) = Inr (Datetime64 [Val 39600])"
  "apply_to_float demo_lib (Object [Val ''abc'']) = Inl FloatError"
  by (simp_all add: to_datetime_def apply_to_float_def to_float_def comma_to_dot_def demo_lib_def)

lemma bad_score_state:
  "setitem (setitem csv_bad_score c_commence (Datetime64 [Val 37800])) c_termine
     (Datetime64 [Val 39600]) = csv_bad_score_dates_converted"
  by (simp add: setitem_def csv_bad_score_def csv_bad_score_dates_converted_def col_defs)

text \<open>
  The window of the example loads a CSV whose score is the text "abc".
\<close>

theorem load_data_failure_state_witness:
  "set EXPECTED_COLUMNS \<subseteq> set (columns csv_bad_score) \<and>
   map_of csv_bad_score c_commence = Some (Object [Val ''1 janvier 2024 10:30:00'']) \<and>
   to_datetime demo_lib (Object [Val ''1 janvier 2024 10:30:00'']) = Inr (Datetime64 [Val 37800]) \<and>
   map_of csv_bad_score c_termine = Some (Object [Val ''1 janvier 2024 11:00:00'']) \<and>
   to_datetime demo_lib (Object [Val ''1 janvier 2024 11:00:00'']) = Inr (Datetime64 [Val 39600]) \<and>
   map_of csv_bad_score c_note = Some (Object [Val ''abc'']) \<and>
   apply_to_float demo_lib (Object [Val ''abc'']) = Inl FloatError \<and>
   load_data demo_lib (Inr csv_bad_score) (demo_window []) =
     (Inl FloatError, (demo_window [])\<lparr>data := Some csv_bad_score_dates_converted\<rparr>) \<and>
   model ((demo_window [])\<lparr>data := Some csv_bad_score_dates_converted\<rparr>) = Some demo_frame"
proof -
  note th = load_data_failure_state
    [where lib = demo_lib and df = csv_bad_score and parent = "demo_window []"
       and e = FloatError and ?s1.0 = "Object [Val ''1 janvier 2024 10:30:00'']"
       and s1' = "Datetime64 [Val 37800]" and ?s2.0 = "Object [Val ''1 janvier 2024 11:00:00'']"
       and s2' = "Datetime64 [Val 39600]" and ?s3.0 = "Object [Val ''abc'']"]
  from th bad_score_columns bad_score_cols bad_score_conv
  have "load_data demo_lib (Inr csv_bad_score) (demo_window []) =
     (Inl FloatError,
      (demo_window [])\<lparr>data := Some (setitem (setitem csv_bad_score c_commence (Datetime64 [Val 37800]))
                                          c_termine (Datetime64 [Val 39600]))\<rparr>)"
    by blast
  then have l: "load_data demo_lib (Inr csv_bad_score) (demo_window []) =
     (Inl FloatError, (demo_window [])\<lparr>data := Some csv_bad_score_dates_converted\<rparr>)"
    by (simp only: bad_score_state)
  have m: "model ((demo_window [])\<lparr>data := Some csv_bad_score_dates_converted\<rparr>) = Some demo_frame"
    by (simp add: demo_window_def)
  from l m bad_score_columns bad_score_cols bad_score_conv show ?thesis by (intro conjI)
qed

text \<open>
  C2 as stated fails: the window of the example, which holds a loaded table,
  loads a CSV without the status column; the load raises, and \<open>parent.data\<close> is then the
  new, unchecked table instead of the one loaded before.
\<close>

theorem load_data_replaces_dataset_before_failing:
  "load_data demo_lib (Inr csv_without_statut) (demo_window []) =
     (Inl (MissingRequired {c_statut}), (demo_window [])\<lparr>data := Some csv_without_statut\<rparr>) \<and>
   data (demo_window []) = Some demo_frame \<and>
   data ((demo_window [])\<lparr>data := Some csv_without_statut\<rparr>) = Some csv_without_statut \<and>
   csv_without_statut \<noteq> demo_frame"
proof -
  have ne: "set EXPECTED_COLUMNS - set (columns csv_without_statut) \<noteq> {}"
    by (simp add: missing_without_statut)
  have "load_data demo_lib (Inr csv_without_statut) (demo_window []) =
     (Inl (MissingRequired {c_statut}), (demo_window [])\<lparr>data := Some csv_without_statut\<rparr>)"
    using load_data_preprocess_fails [OF preprocess_missing [OF ne]]
    by (simp add: missing_without_statut)
  moreover have "csv_without_statut \<noteq> demo_frame"
    by (simp add: csv_without_statut_def demo_frame_def)
  ultimately show ?thesis by (simp add: demo_window_def)
qed


section \<open>Parsing the scores\<close>

lemma apply_cells_fails:
  assumes "x \<in> set xs" "isl (g x)"
  shows "isl (apply_cells g xs)"
  using assms by (induction xs) (auto split: sum.splits)

lemma apply_cells_ok:
  assumes "apply_cells g xs = Inr vs"
  shows "map g xs = map Inr vs"
  using assms by (induction xs arbitrary: vs) (auto split: sum.splits)

lemma preprocess_score_column_fails:
  assumes "map_of df c_note = Some s3" "isl (apply_to_float lib s3)"
  shows "isl (fst (preprocess lib df))"
proof -
  from assms(2) obtain e where e: "apply_to_float lib s3 = Inl e" by (cases "apply_to_float lib s3") auto
  consider (missing) "set EXPECTED_COLUMNS - set (columns df) \<noteq> {}"
    | (present) "set EXPECTED_COLUMNS \<subseteq> set (columns df)"
    by blast
  then show ?thesis
  proof cases
    case missing
    then show ?thesis by (simp add: preprocess_missing)
  next
    case present
    then have "c_commence \<in> set (columns df)" "c_termine \<in> set (columns df)"
      by (auto simp: EXPECTED_COLUMNS_def)
    then have "map_of df c_commence \<noteq> None" "map_of df c_termine \<noteq> None"
      by (simp_all add: columns_def map_of_eq_None_iff)
    then obtain s1 s2 where s: "map_of df c_commence = Some s1" "map_of df c_termine = Some s2"
      by blast
    show ?thesis
    proof (cases "to_datetime lib s1")
      case (Inl e1)
      from preprocess_first_date [OF present s(1) this] show ?thesis by simp
    next
      case s1: (Inr s1')
      show ?thesis
      proof (cases "to_datetime lib s2")
        case (Inl e2)
        from preprocess_second_date [OF present s(1) s1 s(2) this] show ?thesis by simp
      next
        case (Inr s2')
        from preprocess_score [OF present s(1) s1 s(2) this assms(1) e] show ?thesis by simp
      qed
    qed
  qed
qed

lemma load_data_score_column_fails:
  assumes "map_of df c_note = Some s3" "isl (apply_to_float lib s3)"
  shows "isl (fst (load_data lib (Inr df) parent))"
proof -
  obtain r df' where p: "preprocess lib df = (r, df')" by (cases "preprocess lib df")
  with preprocess_score_column_fails [OF assms] obtain e where "r = Inl e" by (cases r) auto
  with p show ?thesis by (simp add: load_data_def)
qed

text \<open>What \<open>replace(',', '.')\<close> does to a text, and when a cell and a column are converted.\<close>

lemma comma_to_dot_nth:
  "length (comma_to_dot t) = length t \<and>
   (\<forall>i < length t. comma_to_dot t ! i = (if t ! i = CHR '','' then CHR ''.'' else t ! i))"
  by (simp add: comma_to_dot_def)

lemma comma_to_dot_no_comma:
  assumes "CHR '','' \<notin> set a"
  shows "comma_to_dot a = a"
  using assms by (induction a) (auto simp: comma_to_dot_def)

lemma comma_to_dot_form:
  assumes "CHR '','' \<notin> set a" "CHR '','' \<notin> set b"
  shows "comma_to_dot (a @ '','' @ b) = a @ ''.'' @ b"
proof -
  have "comma_to_dot (a @ '','' @ b) = comma_to_dot a @ ''.'' @ comma_to_dot b"
    by (simp add: comma_to_dot_def)
  with assms show ?thesis by (simp add: comma_to_dot_no_comma)
qed

lemma to_float_Inr:
  "to_float lib x = Inr v \<longleftrightarrow> (\<exists>t. x = Val t \<and> float lib (comma_to_dot t) = Some v)"
  by (auto simp: to_float_def split: na.splits option.splits)

lemma apply_cells_Inr:
  "apply_cells g xs = Inr vs \<longleftrightarrow> list_all2 (\<lambda>x v. g x = Inr v) xs vs"
proof (induction xs arbitrary: vs)
  case Nil
  then show ?case by auto
next
  case (Cons x xs)
  show ?case
  proof (cases "g x")
    case (Inl e)
    then show ?thesis by (auto simp: list_all2_Cons1)
  next
    case (Inr v)
    then show ?thesis
      using Cons.IH by (cases "apply_cells g xs") (auto simp: list_all2_Cons1)
  qed
qed

lemma apply_to_float_Inr:
  assumes "xs \<noteq> []"
  shows "apply_to_float lib (Object xs) = Inr s' \<longleftrightarrow>
         (\<exists>vs. s' = Float64 vs \<and>
               list_all2 (\<lambda>x v. \<exists>t. x = Val t \<and> float lib (comma_to_dot t) = Some v) xs vs)"
proof -
  have "apply_to_float lib (Object xs) = Inr s' \<longleftrightarrow>
        (\<exists>vs. s' = Float64 vs \<and> apply_cells (to_float lib) xs = Inr vs)"
    using assms
    by (cases "apply_cells (to_float lib) xs") (auto simp: apply_to_float_def)
  then show ?thesis by (simp add: apply_cells_Inr to_float_Inr)
qed

lemma length_delete_distinct:
  assumes "distinct (map fst df)" "col \<in> set (map fst df)"
  shows "Suc (length (AList.delete col df)) = length df"
  using assms
proof (induction df)
  case Nil
  then show ?case by simp
next
  case (Cons p df)
  show ?case
  proof (cases "fst p = col")
    case True
    with Cons.prems(1) have "col \<notin> fst ` set df" by auto
    then have "AList.delete col df = df" by (rule AList.delete_id)
    with True show ?thesis by simp
  next
    case False
    with Cons show ?thesis by auto
  qed
qed

lemma map_of_insert_middle:
  assumes "col \<notin> fst ` set d"
  shows "map_of (take loc d @ [(col, s)] @ drop loc d) = (map_of d)(col \<mapsto> s)"
proof
  fix k
  have nt: "map_of (take loc d) col = None"
    using assms by (auto simp: map_of_eq_None_iff dest: in_set_takeD)
  have "map_of (take loc d @ drop loc d) k = map_of d k" by simp
  then have split: "map_of d k = (map_of (drop loc d) ++ map_of (take loc d)) k"
    by (simp only: map_of_append)
  show "map_of (take loc d @ [(col, s)] @ drop loc d) k = ((map_of d)(col \<mapsto> s)) k"
  proof (cases "k = col")
    case True
    with nt show ?thesis by (simp add: map_add_def)
  next
    case False
    with split show ?thesis by (simp add: map_add_def split: option.splits)
  qed
qed

lemma pop_insert:
  assumes "distinct (columns df)" "col \<in> set (columns df)" "idx < length df"
  shows "\<exists>s df'. pop df col = Inr (s, AList.delete col df) \<and>
           insert_col (AList.delete col df) idx col s = Inr df' \<and>
           map_of df' = map_of df \<and> distinct (columns df') \<and>
           set (columns df') = set (columns df) \<and> length df' = length df"
proof -
  from assms(2) have "map_of df col \<noteq> None"
    by (simp add: columns_def map_of_eq_None_iff)
  then obtain s where s: "map_of df col = Some s" by blast
  let ?d = "AList.delete col df"
  have len: "Suc (length ?d) = length df"
    using length_delete_distinct assms(1,2) by (simp add: columns_def)
  have notin: "col \<notin> fst ` set ?d" by (rule AList.delete_notin_dom)
  have dd: "distinct (map fst ?d)" using assms(1) by (simp add: columns_def AList.distinct_delete)
  let ?df' = "take idx ?d @ [(col, s)] @ drop idx ?d"
  have ins: "insert_col ?d idx col s = Inr ?df'"
    using notin len assms(3) by (simp add: insert_col_def columns_def)
  have m: "map_of ?df' = map_of df"
  proof -
    have "map_of ?df' = (map_of ?d)(col \<mapsto> s)" by (rule map_of_insert_middle [OF notin])
    also have "\<dots> = map_of df"
      using s by (auto simp: AList.delete_conv fun_eq_iff)
    finally show ?thesis .
  qed
  have cols: "map fst ?df' = take idx (map fst ?d) @ [col] @ drop idx (map fst ?d)"
    by (simp add: take_map drop_map)
  have setd: "set (map fst ?d) = set (map fst df) - {col}" by (simp add: AList.delete_keys)
  have td: "set (take idx (map fst ?d)) \<union> set (drop idx (map fst ?d)) = set (map fst ?d)"
    by (metis append_take_drop_id set_append)
  have st: "set (map fst ?df') = set (map fst df)"
  proof -
    have "set (map fst ?df') =
          set (take idx (map fst ?d)) \<union> ({col} \<union> set (drop idx (map fst ?d)))"
      by (simp only: cols set_append list.set)
    also have "\<dots> = set (map fst ?d) \<union> {col}" using td by blast
    also have "\<dots> = set (map fst df)"
      using assms(2) by (simp only: setd columns_def) blast
    finally show ?thesis .
  qed
  have di: "distinct (map fst ?df')"
  proof -
    have "set (take idx (map fst ?d)) \<inter> set (drop idx (map fst ?d)) = {}"
      using dd by (simp add: set_take_disj_set_drop_if_distinct)
    moreover have "distinct (take idx (map fst ?d))" "distinct (drop idx (map fst ?d))"
      using dd by simp_all
    moreover have "col \<notin> set (take idx (map fst ?d))" "col \<notin> set (drop idx (map fst ?d))"
      using notin by (auto dest: in_set_takeD in_set_dropD)
    ultimately show ?thesis by (simp only: cols distinct_append) auto
  qed
  have l: "length ?df' = length df" using len assms(3) by simp
  have popd: "pop df col = Inr (s, ?d)" using s by (simp add: pop_def)
  from popd ins m di st l show ?thesis unfolding columns_def by blast
qed

lemma reorder_ok:
  assumes "distinct (columns df)"
    and "\<forall>c \<in> set cols. fst c \<in> set (columns df) \<and> snd c < length df"
  shows "\<exists>df'. reorder cols df = (Inr (), df') \<and> map_of df' = map_of df \<and>
           set (columns df') = set (columns df)"
  using assms
proof (induction cols arbitrary: df)
  case Nil
  then show ?case by simp
next
  case (Cons c rest)
  obtain col idx where c: "c = (col, idx)" by (cases c)
  from Cons.prems c have "col \<in> set (columns df)" "idx < length df" by auto
  from pop_insert [OF Cons.prems(1) this]
  obtain s d where p: "pop df col = Inr (s, AList.delete col df)"
    "insert_col (AList.delete col df) idx col s = Inr d"
    "map_of d = map_of df" "distinct (columns d)" "set (columns d) = set (columns df)"
    "length d = length df" by blast
  from Cons.prems(2) p(5,6)
  have "\<forall>c \<in> set rest. fst c \<in> set (columns d) \<and> snd c < length d" by simp
  from Cons.IH [OF p(4) this] obtain df' where
    "reorder rest d = (Inr (), df')" "map_of df' = map_of d" "set (columns df') = set (columns d)"
    by blast
  with p show ?case by (simp add: c)
qed

text \<open>
  A load that succeeds: the columns are checked, the two date columns and the score column
  converted, and the six expected columns moved to the front.
\<close>

lemma expected_length:
  assumes "set EXPECTED_COLUMNS \<subseteq> set (columns df)"
  shows "6 \<le> length df"
proof -
  have "distinct EXPECTED_COLUMNS" by (simp add: EXPECTED_COLUMNS_def col_defs)
  then have "card (set EXPECTED_COLUMNS) = 6"
    by (simp add: distinct_card EXPECTED_COLUMNS_def)
  moreover have "card (set EXPECTED_COLUMNS) \<le> card (set (columns df))"
    using assms by (simp add: card_mono)
  moreover have "card (set (columns df)) \<le> length (columns df)" by (rule card_length)
  ultimately show ?thesis by (simp add: columns_def)
qed

lemma columns_setitem:
  assumes "col \<in> set (columns df)"
  shows "columns (setitem df col s) = columns df"
  using assms by (simp add: columns_def setitem_def AList.update_keys)

lemma map_of_setitem_fun: "map_of (setitem df col s) = (map_of df)(col \<mapsto> s)"
  by (simp add: setitem_def update_conv')

lemma preprocess_ok:
  assumes "distinct (columns df)" "set EXPECTED_COLUMNS \<subseteq> set (columns df)"
    and "map_of df c_commence = Some s1" "to_datetime lib s1 = Inr s1'"
    and "map_of df c_termine = Some s2" "to_datetime lib s2 = Inr s2'"
    and "map_of df c_note = Some s3" "apply_to_float lib s3 = Inr s3'"
  shows "\<exists>df'. preprocess lib df = (Inr (), df') \<and>
           map_of df' = (map_of df)(c_commence \<mapsto> s1', c_termine \<mapsto> s2', c_note \<mapsto> s3')"
proof -
  from assms(2) have mem: "c_statut \<in> set (columns df)" "c_commence \<in> set (columns df)"
    "c_termine \<in> set (columns df)" "c_note \<in> set (columns df)"
    by (auto simp: EXPECTED_COLUMNS_def)
  define df1 where "df1 = setitem df c_commence s1'"
  define df2 where "df2 = setitem df1 c_termine s2'"
  define df3 where "df3 = setitem df2 c_note s3'"
  have c1: "columns df1 = columns df" unfolding df1_def by (rule columns_setitem [OF mem(2)])
  have c2: "columns df2 = columns df" unfolding df2_def using c1 mem(3) by (simp add: columns_setitem)
  have c3: "columns df3 = columns df" unfolding df3_def using c2 mem(4) by (simp add: columns_setitem)
  have m2: "map_of df1 c_termine = Some s2"
    unfolding df1_def by (simp add: map_of_setitem names_differ assms(5))
  have m3: "map_of df2 c_note = Some s3"
    unfolding df2_def df1_def by (simp add: map_of_setitem names_differ assms(7))
  have s1: "convert (to_datetime lib) c_commence df = (Inr (), df1)"
    unfolding df1_def by (rule convert_ok [OF assms(3), of "to_datetime lib", OF assms(4)])
  have s2: "convert (to_datetime lib) c_termine df1 = (Inr (), df2)"
    unfolding df2_def by (rule convert_ok [OF m2, of "to_datetime lib", OF assms(6)])
  have s3: "convert (apply_to_float lib) c_note df2 = (Inr (), df3)"
    unfolding df3_def by (rule convert_ok [OF m3, of "apply_to_float lib", OF assms(8)])
  have len: "length df3 = length df" using c3 by (metis columns_def length_map)
  have "6 \<le> length df3" using expected_length [OF assms(2)] len by simp
  then have b: "\<forall>c \<in> set [(c_statut, 2), (c_commence, 3), (c_termine, 4), (c_note, 5 :: nat)].
      fst c \<in> set (columns df3) \<and> snd c < length df3"
    using mem c3 by simp
  have "distinct (columns df3)" using assms(1) c3 by simp
  from reorder_ok [OF this b] obtain df' where
    r: "reorder [(c_statut, 2), (c_commence, 3), (c_termine, 4), (c_note, 5)] df3 = (Inr (), df')"
    and m: "map_of df' = map_of df3" by blast
  have p: "preprocess lib df = (Inr (), df')"
    by (simp add: preprocess_def seq_def check_missing_ok [OF assms(2)] s1 s2 s3 r
             del: reorder.simps)
  have "map_of df3 = (map_of df)(c_commence \<mapsto> s1', c_termine \<mapsto> s2', c_note \<mapsto> s3')"
    unfolding df3_def df2_def df1_def by (simp add: map_of_setitem_fun)
  with p m show ?thesis by simp
qed

lemma activities_map_of:
  assumes "map_of df' = map_of df"
  shows "activities df' = activities df"
  by (simp add: activities_def assms)

lemma length_list_all2: "list_all2 P xs ys \<Longrightarrow> length ys = length xs"
  by (simp add: list_all2_lengthD)

lemma load_data_ok:
  assumes "distinct (columns df)"
    and "map_of df c_nom = Some (Object a)" "map_of df c_prenom = Some (Object b)"
    and "map_of df c_statut = Some (Object c)"
    and "map_of df c_commence = Some s1" "to_datetime lib s1 = Inr (Datetime64 d)"
    and "map_of df c_termine = Some s2" "to_datetime lib s2 = Inr (Datetime64 e)"
    and "map_of df c_note = Some (Object xs)" "xs \<noteq> []"
    and "list_all2 (\<lambda>x v. \<exists>t. x = Val t \<and> float lib (comma_to_dot t) = Some v) xs vs"
    and "length b = length a" "length c = length a" "length d = length a"
      "length e = length a" "length xs = length a"
  shows "\<exists>p' df'. load_data lib (Inr df) parent = (Inr (), p') \<and>
           data p' = Some df' \<and> model p' = Some df' \<and> map_of df' c_note = Some (Float64 vs)"
proof -
  have ex: "set EXPECTED_COLUMNS \<subseteq> set (columns df)"
    using assms(2-5,7,9)
    by (auto simp: EXPECTED_COLUMNS_def columns_def dest!: map_of_SomeD intro: rev_image_eqI)
  have f: "apply_to_float lib (Object xs) = Inr (Float64 vs)"
    using apply_to_float_Inr [OF assms(10), of lib "Float64 vs"] assms(11) by simp
  from preprocess_ok [OF assms(1) ex assms(5,6,7,8,9) f] obtain df' where
    p: "preprocess lib df = (Inr (), df')"
    and m: "map_of df' = (map_of df)(c_commence \<mapsto> Datetime64 d, c_termine \<mapsto> Datetime64 e,
                                       c_note \<mapsto> Float64 vs)"
    by blast
  have lv: "length vs = length a" using assms(11,16) by (simp add: list_all2_lengthD)
  have "activities df' \<noteq> None"
    using assms(2-4,12-15) lv
    by (simp add: activities_def m col_defs)
  then obtain rows where "activities df' = Some rows" by blast
  with p have "load_data lib (Inr df) parent =
      (Inr (), parent\<lparr>data := Some df', model := Some df',
                       student_filter := map (\<lambda>(name, _). (full_name name, True)) (groupby rows)\<rparr>)"
    by (simp add: load_data_def)
  moreover have "map_of df' c_note = Some (Float64 vs)" by (simp add: m)
  ultimately show ?thesis by simp
qed

text \<open>
  C6.  A text cell of the score column is converted by the builtin \<open>float\<close> after every
  comma is replaced by a dot and no other character is changed: a text "integer,fraction"
  is read as \<open>float("integer.fraction")\<close>, "15,50" as \<open>float("15.50")\<close> and "0,00" as
  \<open>float("0.00")\<close>.  A cell is converted exactly when it is a text that \<open>float\<close>
  accepts once rewritten; a score column with rows is converted exactly when each of its
  cells is, and holds then the number of each cell, in order.  A CSV with the expected
  columns, whose dates parse and whose score cells are all such texts, loads, and the score
  column of the loaded table holds these numbers.  A cell that is not converted (a text
  that \<open>float\<close> rejects, a cell that is no text) makes the whole load fail, and so does a
  score column that \<open>read_csv\<close> has read as numbers.
\<close>

theorem score_parsing:
  "length (comma_to_dot t) = length t \<and>
   (\<forall>i < length t. comma_to_dot t ! i = (if t ! i = CHR '','' then CHR ''.'' else t ! i)) \<and>
   (CHR '','' \<notin> set ip \<and> CHR '','' \<notin> set fp \<longrightarrow>
      comma_to_dot (ip @ '','' @ fp) = ip @ ''.'' @ fp \<and>
      to_float lib (Val (ip @ '','' @ fp)) =
        (case float lib (ip @ ''.'' @ fp) of None \<Rightarrow> Inl FloatError | Some v \<Rightarrow> Inr v)) \<and>
   to_float lib (Val ''15,50'') =
     (case float lib ''15.50'' of None \<Rightarrow> Inl FloatError | Some v \<Rightarrow> Inr v) \<and>
   to_float lib (Val ''0,00'') =
     (case float lib ''0.00'' of None \<Rightarrow> Inl FloatError | Some v \<Rightarrow> Inr v) \<and>
   (to_float lib x = Inr v \<longleftrightarrow> (\<exists>t. x = Val t \<and> float lib (comma_to_dot t) = Some v)) \<and>
   (xs \<noteq> [] \<longrightarrow>
      (apply_to_float lib (Object xs) = Inr s' \<longleftrightarrow>
       (\<exists>vs. s' = Float64 vs \<and>
             list_all2 (\<lambda>x v. \<exists>t. x = Val t \<and> float lib (comma_to_dot t) = Some v) xs vs))) \<and>
   (distinct (columns df) \<and>
    map_of df c_nom = Some (Object noms) \<and> map_of df c_prenom = Some (Object prenoms) \<and>
    map_of df c_statut = Some (Object statuts) \<and>
    map_of df c_commence = Some s1 \<and> to_datetime lib s1 = Inr (Datetime64 starts) \<and>
    map_of df c_termine = Some s2 \<and> to_datetime lib s2 = Inr (Datetime64 ends) \<and>
    map_of df c_note = Some (Object xs) \<and> xs \<noteq> [] \<and>
    list_all2 (\<lambda>x v. \<exists>t. x = Val t \<and> float lib (comma_to_dot t) = Some v) xs vs \<and>
    length prenoms = length noms \<and> length statuts = length noms \<and>
    length starts = length noms \<and> length ends = length noms \<and> length xs = length noms \<longrightarrow>
      (\<exists>p' df'. load_data lib (Inr df) parent = (Inr (), p') \<and>
          data p' = Some df' \<and> model p' = Some df' \<and> map_of df' c_note = Some (Float64 vs))) \<and>
   (map_of df c_note = Some (Object xs) \<and> y \<in> set xs \<and> isl (to_float lib y) \<longrightarrow>
      isl (fst (load_data lib (Inr df) parent))) \<and>
   (map_of df c_note = Some (Float64 ys) \<and> ys \<noteq> [] \<longrightarrow>
      isl (fst (load_data lib (Inr df) parent)))"
proof -
  have c1: "length (comma_to_dot t) = length t"
    and c2: "\<forall>i < length t. comma_to_dot t ! i = (if t ! i = CHR '','' then CHR ''.'' else t ! i)"
    using comma_to_dot_nth [of t] by blast+
  have c3: "CHR '','' \<notin> set ip \<and> CHR '','' \<notin> set fp \<longrightarrow>
      comma_to_dot (ip @ '','' @ fp) = ip @ ''.'' @ fp \<and>
      to_float lib (Val (ip @ '','' @ fp)) =
        (case float lib (ip @ ''.'' @ fp) of None \<Rightarrow> Inl FloatError | Some v \<Rightarrow> Inr v)"
  proof
    assume "CHR '','' \<notin> set ip \<and> CHR '','' \<notin> set fp"
    then have "comma_to_dot (ip @ '','' @ fp) = ip @ ''.'' @ fp"
      using comma_to_dot_form by blast
    then show "comma_to_dot (ip @ '','' @ fp) = ip @ ''.'' @ fp \<and>
      to_float lib (Val (ip @ '','' @ fp)) =
        (case float lib (ip @ ''.'' @ fp) of None \<Rightarrow> Inl FloatError | Some v \<Rightarrow> Inr v)"
      by (simp add: to_float_def)
  qed
  have c4: "to_float lib (Val ''15,50'') =
     (case float lib ''15.50'' of None \<Rightarrow> Inl FloatError | Some v \<Rightarrow> Inr v)"
    and c5: "to_float lib (Val ''0,00'') =
     (case float lib ''0.00'' of None \<Rightarrow> Inl FloatError | Some v \<Rightarrow> Inr v)"
    by (simp_all add: to_float_def comma_to_dot_def)
  have c6: "to_float lib x = Inr v \<longleftrightarrow> (\<exists>t. x = Val t \<and> float lib (comma_to_dot t) = Some v)"
    by (rule to_float_Inr)
  have c7: "xs \<noteq> [] \<longrightarrow>
      (apply_to_float lib (Object xs) = Inr s' \<longleftrightarrow>
       (\<exists>vs. s' = Float64 vs \<and>
             list_all2 (\<lambda>x v. \<exists>t. x = Val t \<and> float lib (comma_to_dot t) = Some v) xs vs))"
    using apply_to_float_Inr by blast
  have c8: "distinct (columns df) \<and>
    map_of df c_nom = Some (Object noms) \<and> map_of df c_prenom = Some (Object prenoms) \<and>
    map_of df c_statut = Some (Object statuts) \<and>
    map_of df c_commence = Some s1 \<and> to_datetime lib s1 = Inr (Datetime64 starts) \<and>
    map_of df c_termine = Some s2 \<and> to_datetime lib s2 = Inr (Datetime64 ends) \<and>
    map_of df c_note = Some (Object xs) \<and> xs \<noteq> [] \<and>
    list_all2 (\<lambda>x v. \<exists>t. x = Val t \<and> float lib (comma_to_dot t) = Some v) xs vs \<and>
    length prenoms = length noms \<and> length statuts = length noms \<and>
    length starts = length noms \<and> length ends = length noms \<and> length xs = length noms \<longrightarrow>
      (\<exists>p' df'. load_data lib (Inr df) parent = (Inr (), p') \<and>
          data p' = Some df' \<and> model p' = Some df' \<and> map_of df' c_note = Some (Float64 vs))"
  proof
    assume h: "distinct (columns df) \<and>
      map_of df c_nom = Some (Object noms) \<and> map_of df c_prenom = Some (Object prenoms) \<and>
      map_of df c_statut = Some (Object statuts) \<and>
      map_of df c_commence = Some s1 \<and> to_datetime lib s1 = Inr (Datetime64 starts) \<and>
      map_of df c_termine = Some s2 \<and> to_datetime lib s2 = Inr (Datetime64 ends) \<and>
      map_of df c_note = Some (Object xs) \<and> xs \<noteq> [] \<and>
      list_all2 (\<lambda>x v. \<exists>t. x = Val t \<and> float lib (comma_to_dot t) = Some v) xs vs \<and>
      length prenoms = length noms \<and> length statuts = length noms \<and>
      length starts = length noms \<and> length ends = length noms \<and> length xs = length noms"
    show "\<exists>p' df'. load_data lib (Inr df) parent = (Inr (), p') \<and>
          data p' = Some df' \<and> model p' = Some df' \<and> map_of df' c_note = Some (Float64 vs)"
      by (rule load_data_ok [where a = noms and b = prenoms and c = statuts and d = starts
            and e = ends and ?s1.0 = s1 and ?s2.0 = s2 and xs = xs]) (use h in blast)+
  qed
  have c9: "map_of df c_note = Some (Object xs) \<and> y \<in> set xs \<and> isl (to_float lib y) \<longrightarrow>
      isl (fst (load_data lib (Inr df) parent))"
  proof
    assume h: "map_of df c_note = Some (Object xs) \<and> y \<in> set xs \<and> isl (to_float lib y)"
    then have ne: "xs \<noteq> []" by auto
    from h have "isl (apply_cells (to_float lib) xs)" by (blast intro: apply_cells_fails)
    with ne have "isl (apply_to_float lib (Object xs))"
      by (cases "apply_cells (to_float lib) xs") (simp_all add: apply_to_float_def)
    with h show "isl (fst (load_data lib (Inr df) parent))"
      by (blast intro: load_data_score_column_fails)
  qed
  have c10: "map_of df c_note = Some (Float64 ys) \<and> ys \<noteq> [] \<longrightarrow>
      isl (fst (load_data lib (Inr df) parent))"
  proof
    assume h: "map_of df c_note = Some (Float64 ys) \<and> ys \<noteq> []"
    then have "isl (apply_to_float lib (Float64 ys))" by (simp add: apply_to_float_def)
    with h show "isl (fst (load_data lib (Inr df) parent))"
      by (blast intro: load_data_score_column_fails)
  qed
  from c1 c2 c3 c4 c5 c6 c7 c8 c9 c10 show ?thesis by (intro conjI)
qed

lemma demo_csv_cols:
  "distinct (columns demo_csv)"
  "map_of demo_csv c_nom =
     Some (Object [Val ''Durand'', Val ''Durand'', Val ''Abel'', Val ''Durand'',
                   Val ''Martin'', Val ''Martin'', Val ''Durand''])"
  "map_of demo_csv c_prenom =
     Some (Object [Val ''Zoe'', Val ''Zoe'', Val ''Max'', Val ''Zoe'',
                   Val ''Lea'', Val ''Lea'', Val ''Zoe''])"
  "map_of demo_csv c_statut =
     Some (Object [Val terminee, Val terminee, Val terminee, Val terminee,
                   Val terminee, Val terminee, Val ''En cours''])"
  "map_of demo_csv c_commence =
     Some (Object
       [Val ''1 janvier 2024 10:30:00'', Val ''1 janvier 2024 10:30:00'',
        Val ''1 janvier 2024 10:30:00'', Val ''3 janvier 2024 09:00:00'',
        Val ''1 janvier 2024 10:30:00'', Val ''3 janvier 2024 09:00:00'',
        Val ''1 janvier 2024 10:30:00''])"
  "map_of demo_csv c_termine =
     Some (Object
       [Val ''1 janvier 2024 11:00:00'', Val ''1 janvier 2024 11:00:00'',
        Val ''1 janvier 2024 11:00:00'', Val ''3 janvier 2024 09:45:00'',
        Val ''1 janvier 2024 11:00:00'', Val ''3 janvier 2024 09:45:00'',
        Val ''1 janvier 2024 11:00:00''])"
  "map_of demo_csv c_note =
     Some (Object [Val ''12,50'', Val ''0,00'', Val ''15,50'', Val ''18,00'',
                   Val ''0,00'', Val ''0,00'', Val ''15,50''])"
  by (simp_all add: demo_csv_def columns_def col_defs)

lemma demo_csv_dates:
  "to_datetime demo_lib (Object
       [Val ''1 janvier 2024 10:30:00'', Val ''1 janvier 2024 10:30:00'',
        Val ''1 janvier 2024 10:30:00'', Val ''3 janvier 2024 09:00:00'',
        Val ''1 janvier 2024 10:30:00'', Val ''3 janvier 2024 09:00:00'',
        Val ''1 janvier 2024 10:30:00'']) =
     Inr (Datetime64 [Val 37800, Val 37800, Val 37800, Val 205200,
                      Val 37800, Val 205200, Val 37800])"
  "to_datetime demo_lib (Object
       [Val ''1 janvier 2024 11:00:00'', Val ''1 janvier 2024 11:00:00'',
        Val ''1 janvier 2024 11:00:00'', Val ''3 janvier 2024 09:45:00'',
        Val ''1 janvier 2024 11:00:00'', Val ''3 janvier 2024 09:45:00'',
        Val ''1 janvier 2024 11:00:00'']) =
     Inr (Datetime64 [Val 39600, Val 39600, Val 39600, Val 207900,
                      Val 39600, Val 207900, Val 39600])"
  by (simp_all add: to_datetime_def demo_lib_def)

lemma demo_csv_scores:
  "list_all2 (\<lambda>x v. \<exists>t. x = Val t \<and> float demo_lib (comma_to_dot t) = Some v)
     [Val ''12,50'', Val ''0,00'', Val ''15,50'', Val ''18,00'',
      Val ''0,00'', Val ''0,00'', Val ''15,50'']
     [Val (25 / 2), Val 0, Val (31 / 2), Val 18, Val 0, Val 0, Val (31 / 2)]"
  by (simp add: demo_lib_def comma_to_dot_def)

lemma demo_frame_note:
  "map_of demo_frame c_note =
     Some (Float64 [Val (25 / 2), Val 0, Val (31 / 2), Val 18, Val 0, Val 0, Val (31 / 2)])"
  by (simp add: demo_frame_def col_defs)

text \<open>
  With the library of the example: the comma of "12,50" becomes a dot and its other
  characters stay, "12,50" gives 25/2, "15,50" gives 31/2 and "0,00" gives 0; the CSV of
  the example loads, with its seven scores converted; the CSV with the score "abc" fails
  to load, and so does the table of the example once its scores are numbers.
\<close>

theorem score_parsing_witness:
  "comma_to_dot ''12,50'' ! 2 = CHR ''.'' \<and> comma_to_dot ''12,50'' ! 3 = CHR ''5'' \<and>
   to_float demo_lib (Val ''12,50'') = Inr (Val (25 / 2)) \<and>
   to_float demo_lib (Val ''15,50'') = Inr (Val (31 / 2)) \<and>
   to_float demo_lib (Val ''0,00'') = Inr (Val 0) \<and>
   apply_to_float demo_lib (Object [Val ''15,50'', Val ''0,00'']) =
     Inr (Float64 [Val (31 / 2), Val 0]) \<and>
   distinct (columns demo_csv) \<and>
   map_of demo_csv c_note =
     Some (Object [Val ''12,50'', Val ''0,00'', Val ''15,50'', Val ''18,00'',
                   Val ''0,00'', Val ''0,00'', Val ''15,50'']) \<and>
   list_all2 (\<lambda>x v. \<exists>t. x = Val t \<and> float demo_lib (comma_to_dot t) = Some v)
     [Val ''12,50'', Val ''0,00'', Val ''15,50'', Val ''18,00'',
      Val ''0,00'', Val ''0,00'', Val ''15,50'']
     [Val (25 / 2), Val 0, Val (31 / 2), Val 18, Val 0, Val 0, Val (31 / 2)] \<and>
   load_data demo_lib (Inr demo_csv) empty_window =
     (Inr (), \<lparr>data = Some demo_frame, model = Some demo_frame,
               student_filter = [(''Abel Max'', True), (''Durand Zoe'', True), (''Martin Lea'', True)],
               schedule = []\<rparr>) \<and>
   map_of demo_frame c_note =
     Some (Float64 [Val (25 / 2), Val 0, Val (31 / 2), Val 18, Val 0, Val 0, Val (31 / 2)]) \<and>
   map_of csv_bad_score c_note = Some (Object [Val ''abc'']) \<and>
   isl (to_float demo_lib (Val ''abc'')) \<and>
   isl (fst (load_data demo_lib (Inr csv_bad_score) empty_window)) \<and>
   isl (fst (load_data demo_lib (Inr demo_frame) empty_window))"
proof -
  note th = score_parsing [where lib = demo_lib and parent = empty_window]
  note nth = th [THEN conjunct2, THEN conjunct1, rule_format]
  note form = th [THEN conjunct2, THEN conjunct2, THEN conjunct1, rule_format]
  note c15 = th [THEN conjunct2, THEN conjunct2, THEN conjunct2, THEN conjunct1]
  note c0 = th [THEN conjunct2, THEN conjunct2, THEN conjunct2, THEN conjunct2, THEN conjunct1]
  note tf = th [THEN conjunct2, THEN conjunct2, THEN conjunct2, THEN conjunct2, THEN conjunct2,
      THEN conjunct1]
  note ap = th [THEN conjunct2, THEN conjunct2, THEN conjunct2, THEN conjunct2, THEN conjunct2,
      THEN conjunct2, THEN conjunct1, rule_format]
  note ok = th [THEN conjunct2, THEN conjunct2, THEN conjunct2, THEN conjunct2, THEN conjunct2,
      THEN conjunct2, THEN conjunct2, THEN conjunct1, rule_format]
  note bad_text = th [THEN conjunct2, THEN conjunct2, THEN conjunct2, THEN conjunct2,
      THEN conjunct2, THEN conjunct2, THEN conjunct2, THEN conjunct2, THEN conjunct1, rule_format]
  note bad_number = th [THEN conjunct2, THEN conjunct2, THEN conjunct2, THEN conjunct2,
      THEN conjunct2, THEN conjunct2, THEN conjunct2, THEN conjunct2, THEN conjunct2, rule_format]
  have n2: "comma_to_dot ''12,50'' ! 2 = CHR ''.''"
    using nth [of 2 "''12,50''"] by simp
  have n3: "comma_to_dot ''12,50'' ! 3 = CHR ''5''"
    using nth [of 3 "''12,50''"] by simp
  have "CHR '','' \<notin> set ''12'' \<and> CHR '','' \<notin> set ''50''" by simp
  from form [OF this] have v12: "to_float demo_lib (Val ''12,50'') = Inr (Val (25 / 2))"
    by (simp add: demo_lib_def)
  have v15: "to_float demo_lib (Val ''15,50'') = Inr (Val (31 / 2))"
    using c15 by (simp add: demo_lib_def)
  have v0: "to_float demo_lib (Val ''0,00'') = Inr (Val 0)"
    using c0 by (simp add: demo_lib_def)
  have "list_all2 (\<lambda>x v. \<exists>t. x = Val t \<and> float demo_lib (comma_to_dot t) = Some v)
          [Val ''15,50'', Val ''0,00''] [Val (31 / 2), Val 0]"
    by (simp add: demo_lib_def comma_to_dot_def)
  then have col: "apply_to_float demo_lib (Object [Val ''15,50'', Val ''0,00'']) =
     Inr (Float64 [Val (31 / 2), Val 0])"
    using ap [of "[Val ''15,50'', Val ''0,00'']" "Float64 [Val (31 / 2), Val 0]"] by simp
  have "\<exists>p' df'. load_data demo_lib (Inr demo_csv) empty_window = (Inr (), p') \<and>
          data p' = Some df' \<and> model p' = Some df' \<and>
          map_of df' c_note =
            Some (Float64 [Val (25 / 2), Val 0, Val (31 / 2), Val 18, Val 0, Val 0, Val (31 / 2)])"
    by (rule ok, (rule conjI demo_csv_cols demo_csv_dates demo_csv_scores | simp)+)
  then have note': "map_of demo_frame c_note =
     Some (Float64 [Val (25 / 2), Val 0, Val (31 / 2), Val 18, Val 0, Val 0, Val (31 / 2)])"
    by (auto simp add: demo_load)
  have t: "isl (to_float demo_lib (Val ''abc''))"
    using tf [of "Val ''abc''"] by (cases "to_float demo_lib (Val ''abc'')") (auto simp: demo_lib_def comma_to_dot_def)
  have b1: "isl (fst (load_data demo_lib (Inr csv_bad_score) empty_window))"
    by (rule bad_text [of csv_bad_score "[Val ''abc'']" "Val ''abc''"]) (simp add: bad_score_cols(3) t)
  have b2: "isl (fst (load_data demo_lib (Inr demo_frame) empty_window))"
    by (rule bad_number [of demo_frame "[Val (25 / 2), Val 0, Val (31 / 2), Val 18, Val 0, Val 0, Val (31 / 2)]"])
       (simp add: note')
  from n2 n3 v12 v15 v0 col demo_csv_cols(1) demo_csv_cols(7) demo_csv_scores demo_load note'
    bad_score_cols(3) t b1 b2
  show ?thesis by (intro conjI)
qed


section \<open>The supervisor decorator\<close>

text \<open>What the decorated functions raise: every error is an instance of \<open>Exception\<close>.\<close>

lemma apply_cells_error:
  assumes "apply_cells g xs = Inl e"
  shows "\<exists>x \<in> set xs. g x = Inl e"
  using assms by (induction xs) (auto split: sum.splits)

lemma apply_cells_error_property:
  assumes "apply_cells g xs = Inl e" and "\<And>x e'. g x = Inl e' \<Longrightarrow> P e'"
  shows "P e"
  using apply_cells_error [OF assms(1)] assms(2) by blast

lemma to_datetime_error:
  assumes "to_datetime lib s = Inl e"
  shows "e = TimeDataError"
proof (cases s)
  case (Object xs)
  with assms have "apply_cells
      (\<lambda>x. case x of NA \<Rightarrow> Inr NA
            | Val t \<Rightarrow> (case strptime lib t of None \<Rightarrow> Inl TimeDataError | Some v \<Rightarrow> Inr v))
      xs = Inl e"
    by (auto simp: to_datetime_def map_sum_def split: sum.splits)
  then show ?thesis
    by (rule apply_cells_error_property) (auto split: na.splits option.splits)
next
  case (Float64 xs)
  with assms have "apply_cells (\<lambda>x. case x of NA \<Rightarrow> Inr (NA :: time na) | Val v \<Rightarrow> Inl TimeDataError) xs =
      Inl e"
    by (auto simp: to_datetime_def map_sum_def split: sum.splits)
  then show ?thesis
    by (rule apply_cells_error_property) (auto split: na.splits)
next
  case (Datetime64 xs)
  with assms show ?thesis by (simp add: to_datetime_def)
qed

lemma to_float_error:
  assumes "to_float lib x = Inl e"
  shows "e = CellNotText \<or> e = FloatError"
  using assms by (auto simp: to_float_def split: na.splits option.splits)

lemma apply_to_float_error:
  assumes "apply_to_float lib s = Inl e"
  shows "e = CellNotText \<or> e = FloatError"
proof (cases s)
  case (Object xs)
  with assms obtain x where "to_float lib x = Inl e"
    by (auto simp: apply_to_float_def map_sum_def split: sum.splits if_splits
             dest!: apply_cells_error)
  then show ?thesis by (rule to_float_error)
next
  case (Float64 xs)
  with assms show ?thesis by (auto simp: apply_to_float_def split: if_splits)
next
  case (Datetime64 xs)
  with assms show ?thesis by (auto simp: apply_to_float_def split: if_splits)
qed

lemma reorder_error:
  assumes "reorder cols df = (Inl e, df')"
  shows "is_Exception e"
  using assms
proof (induction cols arbitrary: df)
  case Nil
  then show ?case by simp
next
  case (Cons c rest)
  obtain col idx where c: "c = (col, idx)" by (cases c)
  from Cons.prems show ?case
    unfolding c
    by (auto simp: pop_def insert_col_def split: option.splits if_splits dest: Cons.IH)
qed

lemma convert_error:
  assumes "convert g col df = (Inl e, df')"
  shows "e = KeyError col \<or> (\<exists>s. g s = Inl e)"
  using assms by (auto simp: convert_def getitem_def split: option.splits sum.splits)

lemma convert_dates_error:
  assumes "convert (to_datetime lib) col df = (Inl e, df')"
  shows "is_Exception e"
  using convert_error [OF assms] by (auto dest: to_datetime_error)

lemma convert_score_error:
  assumes "convert (apply_to_float lib) col df = (Inl e, df')"
  shows "is_Exception e"
  using convert_error [OF assms] by (auto dest: apply_to_float_error)

lemma check_missing_error:
  assumes "check_missing df = (Inl e, df')"
  shows "is_Exception e"
  using assms by (auto simp: check_missing_def Let_def split: if_splits)

lemma seq_error:
  assumes "seq f g s = (Inl e, s')"
  shows "(\<exists>t. f s = (Inl e, t)) \<or> (\<exists>t. g t = (Inl e, s'))"
  using assms by (auto simp: seq_def split: prod.splits sum.splits)

lemma preprocess_error:
  assumes "preprocess lib df = (Inl e, df')"
  shows "is_Exception e"
  using assms unfolding preprocess_def
  by (auto dest!: seq_error
           dest: check_missing_error convert_dates_error convert_score_error reorder_error)

lemma load_data_error:
  assumes "\<forall>x. read_csv = Inl x \<longrightarrow> is_Exception x"
    and "load_data lib read_csv parent = (Inl e, p')"
  shows "is_Exception e"
  using assms
  by (auto simp: load_data_def split: sum.splits prod.splits option.splits
           dest: preprocess_error)

lemma filter_schedule_error:
  assumes "filter_schedule lib rfc schedule_data df = Inl e"
  shows "e = InvalidComparison"
  using assms
proof (induction schedule_data arbitrary: df)
  case Nil
  then show ?case by simp
next
  case (Cons interval rest)
  then show ?case
    using select_rows_cases [of lib rfc interval] by (auto split: sum.splits)
qed

lemma compute_loop_error:
  assumes "compute_loop lib parent student = Inl e"
  shows "e = InvalidComparison"
  using assms
proof (induction student)
  case Nil
  then show ?case by simp
next
  case (Cons g rest)
  obtain name grp where g: "g = (name, grp)" by (cases g)
  from Cons show ?case
    unfolding g
    by (auto simp: Let_def split: if_splits sum.splits dest: filter_schedule_error)
qed

lemma compute_error:
  assumes "compute lib parent = Inl e"
  shows "is_Exception e"
  using assms
  by (auto simp: compute_def split: option.splits if_splits dest: compute_loop_error)

lemma supervisor_returns:
  assumes "\<forall>e s'. func s = (Inl e, s') \<longrightarrow> is_Exception e"
  shows "\<exists>r msgs. supervisor func s = (Inr r, snd (func s), msgs)"
  using assms
  by (cases "func s") (auto simp: supervisor_def split: sum.splits)

lemma decorated_load_data_returns:
  assumes "\<forall>x. read_csv = Inl x \<longrightarrow> is_Exception x"
  shows "\<exists>r a'. decorated_load_data lib read_csv a = (Inr r, a')"
proof -
  have "\<forall>e s'. load_data lib read_csv (window a) = (Inl e, s') \<longrightarrow> is_Exception e"
    using load_data_error [OF assms] by blast
  with supervisor_returns [of "load_data lib read_csv" "window a"] show ?thesis
    by (auto simp: decorated_load_data_def)
qed

lemma open_csv_error:
  assumes "\<forall>x. read_csv = Inl x \<longrightarrow> is_Exception x"
    and "open_csv lib filename read_csv a = (Inl e, a')"
  shows "is_Exception e"
proof -
  from decorated_load_data_returns [OF assms(1)]
  obtain r b where "decorated_load_data lib read_csv (a\<lparr>input_file := ''File: '' @ filename\<rparr>) =
    (Inr r, b)" by blast
  with assms(2) show ?thesis
    by (auto simp: open_csv_def split: if_splits)
qed

text \<open>
  C9.  The wrapper returns the value of the function it wraps when the function returns,
  and shows one message box and returns \<open>None\<close> when the function raises an instance of
  \<open>Exception\<close>.  The functions that carry the decorator are \<open>compute\<close>, \<open>load_data\<close>
  and \<open>open_csv\<close>, and whatever they raise is an instance of \<open>Exception\<close>, given that
  \<open>read_csv\<close> fails with one.  So for every library, main window, file name and outcome
  of \<open>read_csv\<close>, the decorated \<open>compute\<close>, \<open>load_data\<close> and \<open>open_csv\<close> return and
  nothing reaches their caller: an error is reported in a message box, the result is
  \<open>None\<close>, and the state is what the function left.
\<close>

theorem supervisor_never_propagates:
  assumes "\<forall>x. read_csv = Inl x \<longrightarrow> is_Exception x"
  shows "(func s = (Inr r, s') \<longrightarrow> supervisor func s = (Inr (Some r), s', [])) \<and>
         (func s = (Inl e, s') \<and> is_Exception e \<longrightarrow> supervisor func s = (Inr None, s', [e])) \<and>
         (compute lib parent = Inl e \<longrightarrow>
            is_Exception e \<and>
            supervisor (compute_callback lib) parent = (Inr None, parent, [e])) \<and>
         (compute lib parent = Inr rows \<longrightarrow>
            supervisor (compute_callback lib) parent = (Inr (Some rows), parent, [])) \<and>
         (load_data lib read_csv parent = (Inl e, p') \<longrightarrow>
            is_Exception e \<and>
            supervisor (load_data lib read_csv) parent = (Inr None, p', [e])) \<and>
         (load_data lib read_csv parent = (Inr u, p') \<longrightarrow>
            supervisor (load_data lib read_csv) parent = (Inr (Some u), p', [])) \<and>
         (open_csv lib filename read_csv a = (Inl e, a') \<longrightarrow>
            is_Exception e \<and>
            supervisor (open_csv lib filename read_csv) a = (Inr None, a', [e])) \<and>
         (open_csv lib filename read_csv a = (Inr u, a') \<longrightarrow>
            supervisor (open_csv lib filename read_csv) a = (Inr (Some u), a', [])) \<and>
         (\<exists>result msgs. supervisor (compute_callback lib) parent = (Inr result, parent, msgs)) \<and>
         (\<exists>result p msgs. supervisor (load_data lib read_csv) parent = (Inr result, p, msgs)) \<and>
         (\<exists>result b msgs. supervisor (open_csv lib filename read_csv) a = (Inr result, b, msgs))"
proof -
  have general: "func s = (Inr r, s') \<longrightarrow> supervisor func s = (Inr (Some r), s', [])"
    "func s = (Inl e, s') \<and> is_Exception e \<longrightarrow> supervisor func s = (Inr None, s', [e])"
    by (simp_all add: supervisor_def)
  have c1: "compute lib parent = Inl e \<longrightarrow>
            is_Exception e \<and>
            supervisor (compute_callback lib) parent = (Inr None, parent, [e])"
    by (auto simp: supervisor_def compute_callback_def dest: compute_error)
  have c2: "compute lib parent = Inr rows \<longrightarrow>
            supervisor (compute_callback lib) parent = (Inr (Some rows), parent, [])"
    by (simp add: supervisor_def compute_callback_def)
  have l1: "load_data lib read_csv parent = (Inl e, p') \<longrightarrow>
            is_Exception e \<and>
            supervisor (load_data lib read_csv) parent = (Inr None, p', [e])"
    using load_data_error [OF assms] by (auto simp: supervisor_def)
  have l2: "load_data lib read_csv parent = (Inr u, p') \<longrightarrow>
            supervisor (load_data lib read_csv) parent = (Inr (Some u), p', [])"
    by (simp add: supervisor_def)
  have o1: "open_csv lib filename read_csv a = (Inl e, a') \<longrightarrow>
            is_Exception e \<and>
            supervisor (open_csv lib filename read_csv) a = (Inr None, a', [e])"
    using open_csv_error [OF assms] by (auto simp: supervisor_def)
  have o2: "open_csv lib filename read_csv a = (Inr u, a') \<longrightarrow>
            supervisor (open_csv lib filename read_csv) a = (Inr (Some u), a', [])"
    by (simp add: supervisor_def)
  have "\<forall>e s'. compute_callback lib parent = (Inl e, s') \<longrightarrow> is_Exception e"
    by (auto simp: compute_callback_def dest: compute_error)
  with supervisor_returns [of "compute_callback lib" parent]
  have e1: "\<exists>result msgs. supervisor (compute_callback lib) parent = (Inr result, parent, msgs)"
    by (simp add: compute_callback_def)
  have "\<forall>e s'. load_data lib read_csv parent = (Inl e, s') \<longrightarrow> is_Exception e"
    using load_data_error [OF assms] by blast
  with supervisor_returns [of "load_data lib read_csv" parent]
  have e2: "\<exists>result p msgs. supervisor (load_data lib read_csv) parent = (Inr result, p, msgs)"
    by blast
  have "\<forall>e s'. open_csv lib filename read_csv a = (Inl e, s') \<longrightarrow> is_Exception e"
    using open_csv_error [OF assms] by blast
  with supervisor_returns [of "open_csv lib filename read_csv" a]
  have e3: "\<exists>result b msgs. supervisor (open_csv lib filename read_csv) a = (Inr result, b, msgs)"
    by blast
  from general c1 c2 l1 l2 o1 o2 e1 e2 e3 show ?thesis by (intro conjI)
qed

lemma demo_bad_score_load:
  "load_data demo_lib (Inr csv_bad_score) (demo_window []) =
     (Inl FloatError, (demo_window [])\<lparr>data := Some csv_bad_score_dates_converted\<rparr>)"
  using load_data_preprocess_fails
    [OF preprocess_score [OF bad_score_columns bad_score_cols(1) bad_score_conv(1)
          bad_score_cols(2) bad_score_conv(2) bad_score_cols(3) bad_score_conv(3)],
     of "demo_window []"]
  by (simp only: bad_score_state)

lemma demo_open_txt:
  "open_csv demo_lib ''notes.txt'' (Inr csv_bad_score) demo_app =
     (Inl (UnsupportedFileType ''notes.txt''), demo_app)"
  by (simp add: open_csv_def is_csv_def)

lemma demo_open_csv:
  "open_csv demo_lib ''notes.CSV'' (Inr csv_bad_score) demo_app =
     (Inr (),
      \<lparr>input_file = ''File: notes.CSV'',
       window = (demo_window [])\<lparr>data := Some csv_bad_score_dates_converted\<rparr>,
       shown = [FloatError]\<rparr>)"
  by (simp add: open_csv_def is_csv_def decorated_load_data_def supervisor_def demo_app_def
                demo_bad_score_load)

lemma demo_read_error:
  "load_data demo_lib (Inl ReadError) (demo_window []) = (Inl ReadError, demo_window [])"
  by (simp add: load_data_def)

text \<open>
  With the example: \<open>compute\<close> on an interval that is no date, \<open>load_data\<close> on the CSV
  with the score "abc" and \<open>open_csv\<close> on a file that is no CSV raise, and their
  decorated forms return \<open>None\<close> with one message box; \<open>compute\<close> on an interval of
  dates returns its rows; \<open>open_csv\<close> on a CSV returns although the decorated
  \<open>load_data\<close> it calls has reported an error.  A file that \<open>read_csv\<close> cannot read
  makes \<open>load_data\<close> raise the error of \<open>read_csv\<close>, an instance of \<open>Exception\<close>, and
  the decorated \<open>load_data\<close> returns \<open>None\<close> with one message box.
\<close>

theorem supervisor_never_propagates_witness:
  "compute demo_lib (demo_window bad_interval) = Inl InvalidComparison \<and>
   supervisor (compute_callback demo_lib) (demo_window bad_interval) =
     (Inr None, demo_window bad_interval, [InvalidComparison]) \<and>
   compute demo_lib (demo_window one_interval) = Inr demo_results \<and>
   supervisor (compute_callback demo_lib) (demo_window one_interval) =
     (Inr (Some demo_results), demo_window one_interval, []) \<and>
   load_data demo_lib (Inr csv_bad_score) (demo_window []) =
     (Inl FloatError, (demo_window [])\<lparr>data := Some csv_bad_score_dates_converted\<rparr>) \<and>
   supervisor (load_data demo_lib (Inr csv_bad_score)) (demo_window []) =
     (Inr None, (demo_window [])\<lparr>data := Some csv_bad_score_dates_converted\<rparr>, [FloatError]) \<and>
   open_csv demo_lib ''notes.txt'' (Inr csv_bad_score) demo_app =
     (Inl (UnsupportedFileType ''notes.txt''), demo_app) \<and>
   supervisor (open_csv demo_lib ''notes.txt'' (Inr csv_bad_score)) demo_app =
     (Inr None, demo_app, [UnsupportedFileType ''notes.txt'']) \<and>
   supervisor (open_csv demo_lib ''notes.CSV'' (Inr csv_bad_score)) demo_app =
     (Inr (Some ()),
      \<lparr>input_file = ''File: notes.CSV'',
       window = (demo_window [])\<lparr>data := Some csv_bad_score_dates_converted\<rparr>,
       shown = [FloatError]\<rparr>, []) \<and>
   is_Exception ReadError \<and>
   load_data demo_lib (Inl ReadError) (demo_window []) = (Inl ReadError, demo_window []) \<and>
   supervisor (load_data demo_lib (Inl ReadError)) (demo_window []) =
     (Inr None, demo_window [], [ReadError])"
proof -
  have h: "\<forall>x. (Inr csv_bad_score :: exc + rat frame) = Inl x \<longrightarrow> is_Exception x" by simp
  note th = supervisor_never_propagates [OF h, where lib = demo_lib]
  have r: "\<forall>x. (Inl ReadError :: exc + rat frame) = Inl x \<longrightarrow> is_Exception x" by simp
  note tr = supervisor_never_propagates [OF r, where lib = demo_lib]
  note r1 = tr [THEN conjunct2, THEN conjunct2, THEN conjunct2, THEN conjunct2, THEN conjunct1,
      rule_format]
  note c1 = th [THEN conjunct2, THEN conjunct2, THEN conjunct1, rule_format]
  note c2 = th [THEN conjunct2, THEN conjunct2, THEN conjunct2, THEN conjunct1, rule_format]
  note l1 = th [THEN conjunct2, THEN conjunct2, THEN conjunct2, THEN conjunct2, THEN conjunct1,
      rule_format]
  note o1 = th [THEN conjunct2, THEN conjunct2, THEN conjunct2, THEN conjunct2, THEN conjunct2,
      THEN conjunct2, THEN conjunct1, rule_format]
  note o2 = th [THEN conjunct2, THEN conjunct2, THEN conjunct2, THEN conjunct2, THEN conjunct2,
      THEN conjunct2, THEN conjunct2, THEN conjunct1, rule_format]
  have bad: "compute demo_lib (demo_window bad_interval) = Inl InvalidComparison"
    by code_simp
  have a: "supervisor (compute_callback demo_lib) (demo_window bad_interval) =
     (Inr None, demo_window bad_interval, [InvalidComparison])"
    by (rule c1 [OF bad, THEN conjunct2])
  have b: "supervisor (compute_callback demo_lib) (demo_window one_interval) =
     (Inr (Some demo_results), demo_window one_interval, [])"
    by (rule c2 [OF demo_compute_one])
  have c: "supervisor (load_data demo_lib (Inr csv_bad_score)) (demo_window []) =
     (Inr None, (demo_window [])\<lparr>data := Some csv_bad_score_dates_converted\<rparr>, [FloatError])"
    by (rule l1 [OF demo_bad_score_load, THEN conjunct2])
  have d: "supervisor (open_csv demo_lib ''notes.txt'' (Inr csv_bad_score)) demo_app =
     (Inr None, demo_app, [UnsupportedFileType ''notes.txt''])"
    by (rule o1 [OF demo_open_txt, THEN conjunct2])
  have e: "supervisor (open_csv demo_lib ''notes.CSV'' (Inr csv_bad_score)) demo_app =
     (Inr (Some ()),
      \<lparr>input_file = ''File: notes.CSV'',
       window = (demo_window [])\<lparr>data := Some csv_bad_score_dates_converted\<rparr>,
       shown = [FloatError]\<rparr>, [])"
    by (rule o2 [OF demo_open_csv])
  have i: "is_Exception ReadError" by simp
  have f: "supervisor (load_data demo_lib (Inl ReadError)) (demo_window []) =
     (Inr None, demo_window [], [ReadError])"
    by (rule r1 [OF demo_read_error, THEN conjunct2])
  from bad a demo_compute_one b demo_bad_score_load c demo_open_txt d e i demo_read_error f
  show ?thesis by (intro conjI)
qed


section \<open>Saving and loading the schedules\<close>

text \<open>
  C4.  \<open>class_save\<close> first stores the rows of the table under the selected class.  If
  the resulting collection is not the placeholder (the single empty name with no
  interval), the file holds it and a load returns an equal collection; if it is the
  placeholder, the file is absent afterwards and a load returns the empty collection.
\<close>

theorem class_save_then_load:
  assumes "class_save (w, f) = (w', f')"
  shows "class_info w' = AList.update (currentText w) (get_data (table w)) (class_info w) \<and>
         (class_info w' \<noteq> [([], [])] \<longrightarrow>
            f' = Doc (class_info w') \<and>
            (\<exists>w''. init f' = Inr w'' \<and> class_info w'' = class_info w')) \<and>
         (class_info w' = [([], [])] \<longrightarrow>
            f' = Absent \<and> (\<exists>w''. init f' = Inr w'' \<and> class_info w'' = []))"
  using assms
  by (auto simp: class_save_def Let_def init_def widget_load_data_def
           split: if_splits option.splits)

lemma math_save:
  "class_save (math_widget, Absent) =
     (math_saved, Doc [(''Math'', [(''2024-01-01 00:00'', ''2024-01-02 00:00'')])])"
  by (simp add: class_save_def math_widget_def math_saved_def currentText_def get_data_def
                rowCount_def item_def cell_text_def Let_def upt_rec [of 0] upt_rec [of 1])

lemma placeholder_save:
  "class_save (no_class_widget, Doc [(''Math'', [])]) =
     (no_class_widget\<lparr>class_info := [([], [])]\<rparr>, Absent)"
  by (simp add: class_save_def no_class_widget_def currentText_def get_data_def
                rowCount_def Let_def)

text \<open>
  Saving the class Math with one interval and loading it; saving with no class and an
  empty table while the file exists.
\<close>

theorem class_save_then_load_witness:
  "class_save (math_widget, Absent) =
     (math_saved, Doc [(''Math'', [(''2024-01-01 00:00'', ''2024-01-02 00:00'')])]) \<and>
   class_info math_saved \<noteq> [([], [])] \<and>
   init (Doc [(''Math'', [(''2024-01-01 00:00'', ''2024-01-02 00:00'')])]) = Inr math_saved \<and>
   class_save (no_class_widget, Doc [(''Math'', [])]) =
     (no_class_widget\<lparr>class_info := [([], [])]\<rparr>, Absent) \<and>
   class_info (no_class_widget\<lparr>class_info := [([], [])]\<rparr>) = [([], [])] \<and>
   init Absent = Inr no_class_widget"
proof -
  have ne: "class_info math_saved \<noteq> [([], [])]" by (simp add: math_saved_def)
  from class_save_then_load [OF math_save] ne
  have e1: "\<exists>w''. init (Doc [(''Math'', [(''2024-01-01 00:00'', ''2024-01-02 00:00'')])]) = Inr w'' \<and>
              class_info w'' = class_info math_saved"
    by blast
  have i: "init (Doc [(''Math'', [(''2024-01-01 00:00'', ''2024-01-02 00:00'')])]) = Inr math_saved"
    by (simp add: init_def widget_load_data_def math_saved_def currentText_def)
  have p: "class_info (no_class_widget\<lparr>class_info := [([], [])]\<rparr>) = [([], [])]" by simp
  from class_save_then_load [OF placeholder_save] p
  have e2: "\<exists>w''. init Absent = Inr w'' \<and> class_info w'' = []" by blast
  have a: "init Absent = Inr no_class_widget"
    by (simp add: init_def widget_load_data_def no_class_widget_def currentText_def)
  from e1 e2 math_save ne i placeholder_save p a show ?thesis by (intro conjI)
qed

end
